theory Spec2Isabelle
  imports Complex_Main "HOL-Library.AList"
begin

section \<open>Animation retargeting in AvatarViewer.tsx\<close>

text \<open>
  The development embeds the retargeting functions of
  \<^verbatim>\<open>client/src/components/AvatarViewer.tsx\<close>: \<^verbatim>\<open>findSkinnedMesh\<close>,
  \<^verbatim>\<open>findBoneByName\<close>, \<^verbatim>\<open>buildBoneNameMap\<close>, \<^verbatim>\<open>applyTPoseCorrection\<close>,
  \<^verbatim>\<open>restoreAPose\<close>, \<^verbatim>\<open>createHandCorrectionQuaternions\<close> and
  \<^verbatim>\<open>retargetAnimationClip\<close>.

  Conventions of the embedding:
  \<^item> a JavaScript number is a \<^typ>\<open>real\<close>: the arithmetic is exact, so the rounding of
    doubles and of \<^verbatim>\<open>Float32Array\<close> cells is not part of the model;
  \<^item> a JavaScript string is a \<^typ>\<open>string\<close>; every string operation used here
    looks only for the ASCII characters of \<^verbatim>\<open>mixamorig\<close>, \<^verbatim>\<open>:\<close> and \<^verbatim>\<open>.\<close>;
  \<^item> a plain object used as a dictionary (\<^verbatim>\<open>Record<string, string>\<close>) is the map
    \<open>string \<rightharpoonup> 'v\<close> of its own properties; a read \<^verbatim>\<open>obj[key]\<close> falls back to the
    properties every plain object inherits from \<^verbatim>\<open>Object.prototype\<close>, and a write to
    \<^verbatim>\<open>__proto__\<close> goes to the inherited setter;
  \<^item> a \<^verbatim>\<open>Map\<close> is an association list in insertion order, written with
    \<^const>\<open>AList.update\<close> as \<^verbatim>\<open>Map.set\<close> does;
  \<^item> mutation of the skeleton is state passing: a function that mutates bones returns the
    new bone list;
  \<^item> \<^verbatim>\<open>console.warn\<close> and \<^verbatim>\<open>console.error\<close> append a diagnostic to a log that the
    function returns; \<^verbatim>\<open>console.log\<close> lines and the arrays that only feed them
    (\<^verbatim>\<open>matchedBones\<close>, \<^verbatim>\<open>processedBones\<close>, ...) are left out;
  \<^item> \<^verbatim>\<open>updateMatrixWorld\<close> recomputes world matrices from the local transforms and
    touches no local rotation, so it is the identity on the modelled state.
\<close>

subsection \<open>Scene graph and findSkinnedMesh\<close>

text \<open>
  A node of the scene graph: whether it is an instance of \<^verbatim>\<open>THREE.SkinnedMesh\<close>, the rest
  of its fields, and its children in their array order.
\<close>

datatype 'a object3d =
  Object3D (isSkinnedMesh: bool) (fields: 'a) (children: "'a object3d list")

text \<open>
  \<^verbatim>\<open>Object3D.traverse(callback)\<close>: the callback runs on the node, then the traversal
  recurses into each child in order. The callback's captured variables are the state \<open>s\<close>.
\<close>

fun traverse :: "('a object3d \<Rightarrow> 's \<Rightarrow> 's) \<Rightarrow> 'a object3d \<Rightarrow> 's \<Rightarrow> 's" where
  "traverse callback (Object3D k f cs) s =
     fold (traverse callback) cs (callback (Object3D k f cs) s)"

text \<open>
  \<^verbatim>\<open>findSkinnedMesh\<close>: \<open>result\<close> starts as \<^verbatim>\<open>null\<close>; the callback assigns the child when it
  is a skinned mesh and \<open>result\<close> is still \<^verbatim>\<open>null\<close>.
\<close>

definition findSkinnedMesh :: "'a object3d \<Rightarrow> 'a object3d option" where
  "findSkinnedMesh object =
     traverse (\<lambda>child result. if isSkinnedMesh child \<and> result = None then Some child else result)
       object None"

text \<open>The pre-order listing of a hierarchy, the order the specification names.\<close>

fun preorder :: "'a object3d \<Rightarrow> 'a object3d list" where
  "preorder (Object3D k f cs) = Object3D k f cs # concat (map preorder cs)"

subsection \<open>Strings\<close>

text \<open>
  \<^verbatim>\<open>boneName.replace(/^mixamorig:?/, '')\<close>: the pattern is anchored at the start, has no
  global flag and matches \<^verbatim>\<open>mixamorig\<close> followed by at most one \<^verbatim>\<open>:\<close> (greedily), so one
  match at most is removed.
\<close>

definition hasMixamorigPrefix :: "string \<Rightarrow> bool" where
  "hasMixamorigPrefix boneName = (take 9 boneName = ''mixamorig'')"

definition removeMixamorigPrefix :: "string \<Rightarrow> string" where
  "removeMixamorigPrefix boneName =
     (if hasMixamorigPrefix boneName
      then (let rest = drop 9 boneName in if take 1 rest = '':'' then drop 1 rest else rest)
      else boneName)"

text \<open>
  \<^verbatim>\<open>s.lastIndexOf(c)\<close> for a single character: the index of the last occurrence, or \<open>-1\<close>.
\<close>

fun lastIndexOf :: "string \<Rightarrow> char \<Rightarrow> int" where
  "lastIndexOf [] c = - 1"
| "lastIndexOf (x # xs) c =
     (let r = lastIndexOf xs c in if r \<noteq> - 1 then r + 1 else if x = c then 0 else - 1)"

text \<open>\<^verbatim>\<open>s.substring(a, b)\<close> and \<^verbatim>\<open>s.substring(a)\<close> for indices \<open>0 \<le> a \<le> b\<close>.\<close>

definition substring :: "string \<Rightarrow> int \<Rightarrow> int \<Rightarrow> string" where
  "substring s a b = take (nat b - nat a) (drop (nat a) s)"

definition substringFrom :: "string \<Rightarrow> int \<Rightarrow> string" where
  "substringFrom s a = drop (nat a) s"

subsection \<open>Plain objects as dictionaries\<close>

text \<open>
  The names of the properties of \<^verbatim>\<open>Object.prototype\<close>. All are functions, except
  \<^verbatim>\<open>__proto__\<close>, an accessor whose getter returns \<^verbatim>\<open>Object.prototype\<close> itself and whose
  setter ignores a value that is neither an object nor \<^verbatim>\<open>null\<close>.
\<close>

definition objectPrototypeKeys :: "string list" where
  "objectPrototypeKeys =
     [''constructor'', ''__defineGetter__'', ''__defineSetter__'', ''hasOwnProperty'',
      ''__lookupGetter__'', ''__lookupSetter__'', ''isPrototypeOf'', ''propertyIsEnumerable'',
      ''toString'', ''valueOf'', ''__proto__'', ''toLocaleString'']"

text \<open>
  The result of a read \<^verbatim>\<open>obj[key]\<close>: \<^verbatim>\<open>undefined\<close>, the value of an own property, or the
  value that \<^verbatim>\<open>Object.prototype\<close> holds under that key.
\<close>

datatype 'v property_value = Undefined | Own 'v | Inherited string

definition getProperty :: "(string \<rightharpoonup> 'v) \<Rightarrow> string \<Rightarrow> 'v property_value" where
  "getProperty obj key =
     (case obj key of
        Some v \<Rightarrow> Own v
      | None \<Rightarrow> if key \<in> set objectPrototypeKeys then Inherited key else Undefined)"

text \<open>
  A write \<^verbatim>\<open>obj[key] = v\<close> of a string or a quaternion. It creates or updates an own
  property, except under the key \<^verbatim>\<open>__proto__\<close> when the object has no own property of that
  name: the inherited setter runs and ignores the value.
\<close>

definition setProperty :: "(string \<rightharpoonup> 'v) \<Rightarrow> string \<Rightarrow> 'v \<Rightarrow> (string \<rightharpoonup> 'v)" where
  "setProperty obj key v =
     (if key = ''__proto__'' \<and> obj key = None then obj else obj(key \<mapsto> v))"

text \<open>
  The string that an inherited value turns into inside a template literal or as a property
  key: \<^verbatim>\<open>[object Object]\<close> for \<^verbatim>\<open>Object.prototype\<close>, and for a built-in function its
  source text as V8 prints it (the function under \<^verbatim>\<open>constructor\<close> is named \<^verbatim>\<open>Object\<close>,
  the others carry the name of their key).
\<close>

definition inheritedToString :: "string \<Rightarrow> string" where
  "inheritedToString key =
     (if key = ''__proto__'' then ''[object Object]''
      else ''function '' @ (if key = ''constructor'' then ''Object'' else key)
             @ ''() { [native code] }'')"

definition toStringValue :: "string property_value \<Rightarrow> string" where
  "toStringValue v =
     (case v of
        Undefined \<Rightarrow> ''undefined''
      | Own s \<Rightarrow> s
      | Inherited key \<Rightarrow> inheritedToString key)"

text \<open>The exceptions that the library calls of the file can throw.\<close>

datatype js_error = TypeError | Error

subsection \<open>Quaternions\<close>

text \<open>
  \<^verbatim>\<open>THREE.Vector3\<close> and \<^verbatim>\<open>THREE.Quaternion\<close> with the methods the file calls.
  \<^verbatim>\<open>new THREE.Quaternion()\<close> is the identity \<open>(0, 0, 0, 1)\<close>; an argument that is
  \<^verbatim>\<open>undefined\<close> (a read past the end of a typed array) takes the parameter's default.
\<close>

datatype vector3 = Vector3 (vx: real) (vy: real) (vz: real)

datatype quaternion = Quaternion (qx: real) (qy: real) (qz: real) (qw: real)

definition identityQuaternion :: quaternion where
  "identityQuaternion = Quaternion 0 0 0 1"

definition newQuaternion ::
  "real option \<Rightarrow> real option \<Rightarrow> real option \<Rightarrow> real option \<Rightarrow> quaternion" where
  "newQuaternion x y z w =
     Quaternion (case x of None \<Rightarrow> 0 | Some v \<Rightarrow> v) (case y of None \<Rightarrow> 0 | Some v \<Rightarrow> v)
       (case z of None \<Rightarrow> 0 | Some v \<Rightarrow> v) (case w of None \<Rightarrow> 1 | Some v \<Rightarrow> v)"

text \<open>\<^verbatim>\<open>multiplyQuaternions(a, b)\<close>, the Hamilton product \<open>a * b\<close> as three.js computes it.\<close>

definition multiplyQuaternions :: "quaternion \<Rightarrow> quaternion \<Rightarrow> quaternion" where
  "multiplyQuaternions a b =
     (let qax = qx a; qay = qy a; qaz = qz a; qaw = qw a;
          qbx = qx b; qby = qy b; qbz = qz b; qbw = qw b
      in Quaternion
           (qax * qbw + qaw * qbx + qay * qbz - qaz * qby)
           (qay * qbw + qaw * qby + qaz * qbx - qax * qbz)
           (qaz * qbw + qaw * qbz + qax * qby - qay * qbx)
           (qaw * qbw - qax * qbx - qay * qby - qaz * qbz))"

text \<open>
  \<^verbatim>\<open>this.multiply(q)\<close> is \<open>this * q\<close> and \<^verbatim>\<open>this.premultiply(q)\<close> is \<open>q * this\<close>; the
  result is the new value of \<open>this\<close>.
\<close>

definition multiply :: "quaternion \<Rightarrow> quaternion \<Rightarrow> quaternion" where
  "multiply this q = multiplyQuaternions this q"

definition premultiply :: "quaternion \<Rightarrow> quaternion \<Rightarrow> quaternion" where
  "premultiply this q = multiplyQuaternions q this"

definition setFromAxisAngle :: "vector3 \<Rightarrow> real \<Rightarrow> quaternion" where
  "setFromAxisAngle axis angle =
     (let halfAngle = angle / 2; s = sin halfAngle
      in Quaternion (vx axis * s) (vy axis * s) (vz axis * s) (cos halfAngle))"

definition equals :: "quaternion \<Rightarrow> quaternion \<Rightarrow> bool" where
  "equals this q = (qx q = qx this \<and> qy q = qy this \<and> qz q = qz this \<and> qw q = qw this)"

definition degToRad :: "real \<Rightarrow> real" where
  "degToRad degrees = degrees * (pi / 180)"

definition APOSE_TO_TPOSE_OFFSET :: real where
  "APOSE_TO_TPOSE_OFFSET = degToRad 40"

subsection \<open>Skeletons\<close>

text \<open>
  Of a bone the file reads the name and reads and writes the local rotation
  (\<^verbatim>\<open>bone.quaternion\<close>). A skeleton is its \<^verbatim>\<open>bones\<close> array.
\<close>

record bone =
  bone_name :: string
  bone_quaternion :: quaternion

record skeleton =
  bones :: "bone list"

definition findBoneByName :: "skeleton \<Rightarrow> string \<Rightarrow> bone option" where
  "findBoneByName skeleton name = List.find (\<lambda>b. bone_name b = name) (bones skeleton)"

text \<open>
  A write to the rotation of the bone that \<^const>\<open>findBoneByName\<close> returned. The bone is
  the first element of the array with that name and the array holds the reference, so the
  write shows at that position and nowhere else.
\<close>

fun updateBoneByName :: "string \<Rightarrow> (quaternion \<Rightarrow> quaternion) \<Rightarrow> bone list \<Rightarrow> bone list" where
  "updateBoneByName name f [] = []"
| "updateBoneByName name f (b # bs) =
     (if bone_name b = name then b\<lparr>bone_quaternion := f (bone_quaternion b)\<rparr> # bs
      else b # updateBoneByName name f bs)"

subsection \<open>Diagnostics\<close>

datatype diagnostic =
  BoneNotFound string
| InvalidTrackName string
| TrackError string
| NoTracksCreated string

subsection \<open>applyTPoseCorrection and restoreAPose\<close>

definition armBones :: "(string \<times> real) list" where
  "armBones =
     [(''LeftUpperArm'', APOSE_TO_TPOSE_OFFSET),
      (''RightUpperArm'', - APOSE_TO_TPOSE_OFFSET),
      (''LeftShoulder'', APOSE_TO_TPOSE_OFFSET * 0.3),
      (''RightShoulder'', - APOSE_TO_TPOSE_OFFSET * 0.3)]"

text \<open>
  One iteration of the loop over \<^const>\<open>armBones\<close>; the state is the skeleton, the map
  \<open>originalRotations\<close> and the log.
\<close>

definition tposeStep ::
  "string \<times> real \<Rightarrow> skeleton \<times> (string \<times> quaternion) list \<times> diagnostic list
     \<Rightarrow> skeleton \<times> (string \<times> quaternion) list \<times> diagnostic list" where
  "tposeStep = (\<lambda>(name, angle) (skeleton, originalRotations, logged).
     case findBoneByName skeleton name of
       Some bone \<Rightarrow>
         (let correctionQuat = setFromAxisAngle (Vector3 0 0 1) angle
          in (skeleton\<lparr>bones :=
                updateBoneByName name (\<lambda>q. premultiply q correctionQuat) (bones skeleton)\<rparr>,
              AList.update name (bone_quaternion bone) originalRotations,
              logged))
     | None \<Rightarrow> (skeleton, originalRotations, logged @ [BoneNotFound name]))"

definition applyTPoseCorrection ::
  "skeleton \<Rightarrow> skeleton \<times> (string \<times> quaternion) list \<times> diagnostic list" where
  "applyTPoseCorrection skeleton = fold tposeStep armBones (skeleton, [], [])"

definition restoreStep :: "string \<times> quaternion \<Rightarrow> skeleton \<Rightarrow> skeleton" where
  "restoreStep = (\<lambda>(name, quat) skeleton.
     case findBoneByName skeleton name of
       Some bone \<Rightarrow> skeleton\<lparr>bones := updateBoneByName name (\<lambda>_. quat) (bones skeleton)\<rparr>
     | None \<Rightarrow> skeleton)"

definition restoreAPose :: "skeleton \<Rightarrow> (string \<times> quaternion) list \<Rightarrow> skeleton" where
  "restoreAPose skeleton originalRotations = fold restoreStep originalRotations skeleton"

subsection \<open>Tracks and clips\<close>

text \<open>
  A keyframe track: the class it was constructed with, its name, its times and its values.
  The constructor of \<^verbatim>\<open>THREE.KeyframeTrack\<close> throws when \<open>times\<close> is empty and stores the
  arrays it is given otherwise. The constructor of \<^verbatim>\<open>THREE.AnimationClip\<close> stores its
  arguments and, when the duration it is handed is negative, replaces it by the result of
  \<^verbatim>\<open>resetDuration\<close>.
\<close>

datatype track_class =
  KeyframeTrack | BooleanKeyframeTrack | ColorKeyframeTrack | NumberKeyframeTrack
| QuaternionKeyframeTrack | StringKeyframeTrack | VectorKeyframeTrack

record keyframe_track =
  track_class :: track_class
  track_name :: string
  track_times :: "real list"
  track_values :: "real list"

record animation_clip =
  clip_name :: string
  clip_duration :: real
  clip_tracks :: "keyframe_track list"

definition newKeyframeTrack ::
  "track_class \<Rightarrow> string \<Rightarrow> real list \<Rightarrow> real list \<Rightarrow> js_error + keyframe_track" where
  "newKeyframeTrack cls name ts vs =
     (if ts = [] then Inl Error
      else Inr \<lparr>track_class = cls, track_name = name, track_times = ts, track_values = vs\<rparr>)"

text \<open>
  \<^verbatim>\<open>AnimationClip.resetDuration\<close>: the largest of 0 and the last time of every track. A
  track of a clip was built by the constructor of \<^verbatim>\<open>THREE.KeyframeTrack\<close> and so has a
  last time; on a track without times, where three.js would compute with \<^verbatim>\<open>undefined\<close>,
  the model keeps the running maximum.
\<close>

definition resetDuration :: "keyframe_track list \<Rightarrow> real" where
  "resetDuration tracks =
     fold (\<lambda>track duration.
             if track_times track = [] then duration
             else max duration (last (track_times track)))
       tracks 0"

definition newAnimationClip :: "string \<Rightarrow> real \<Rightarrow> keyframe_track list \<Rightarrow> animation_clip" where
  "newAnimationClip name duration tracks =
     \<lparr>clip_name = name,
      clip_duration = (if duration < 0 then resetDuration tracks else duration),
      clip_tracks = tracks\<rparr>"

subsection \<open>buildBoneNameMap\<close>

text \<open>\<^verbatim>\<open>Set.add\<close> on a set kept in insertion order.\<close>

definition setAdd :: "'a \<Rightarrow> 'a list \<Rightarrow> 'a list" where
  "setAdd x xs = (if x \<in> set xs then xs else xs @ [x])"

text \<open>The branch that takes the source bone names from the tracks of a clip.\<close>

definition boneNamesOfClip :: "animation_clip \<Rightarrow> string list" where
  "boneNamesOfClip animationClip =
     fold (\<lambda>track boneNameSet.
             let dotIndex = lastIndexOf (track_name track) CHR ''.''
             in if dotIndex \<noteq> - 1
                then setAdd (substring (track_name track) 0 dotIndex) boneNameSet
                else boneNameSet)
       (clip_tracks animationClip) []"

text \<open>The loop over \<open>sourceBoneNames\<close> that fills the map.\<close>

definition mapBoneNames ::
  "string set \<Rightarrow> string list \<Rightarrow> (string \<rightharpoonup> string) \<Rightarrow> (string \<rightharpoonup> string)" where
  "mapBoneNames targetBoneNames sourceBoneNames boneMap =
     fold (\<lambda>boneName boneMap.
             let mappedName = removeMixamorigPrefix boneName
             in if mappedName \<in> targetBoneNames then setProperty boneMap boneName mappedName
                else boneMap)
       sourceBoneNames boneMap"

text \<open>
  \<open>sourceBoneNames\<close>: the bone names of the source skeleton when there is one, else the
  names found in the clip when there is one, else none.
\<close>

definition sourceBoneNames :: "skeleton option \<Rightarrow> animation_clip option \<Rightarrow> string list" where
  "sourceBoneNames sourceSkeleton animationClip =
     (case sourceSkeleton of
        Some s \<Rightarrow> map bone_name (bones s)
      | None \<Rightarrow>
          (case animationClip of
             Some c \<Rightarrow> boneNamesOfClip c
           | None \<Rightarrow> []))"

definition buildBoneNameMap ::
  "skeleton option \<Rightarrow> skeleton \<Rightarrow> animation_clip option \<Rightarrow> (string \<rightharpoonup> string)" where
  "buildBoneNameMap sourceSkeleton targetSkeleton animationClip =
     (let targetBoneNames = set (map bone_name (bones targetSkeleton))
      in mapBoneNames targetBoneNames (sourceBoneNames sourceSkeleton animationClip) Map.empty)"

subsection \<open>retargetAnimationClip\<close>

record hand_corrections =
  left :: quaternion
  right :: quaternion

definition createHandCorrectionQuaternions :: hand_corrections where
  "createHandCorrectionQuaternions =
     (let xFlip = setFromAxisAngle (Vector3 1 0 0) pi;
          leftHandCorrection = xFlip;
          rightHandCorrection = xFlip
      in \<lparr>left = leftHandCorrection, right = rightHandCorrection\<rparr>)"

definition handBoneCorrections :: "string \<rightharpoonup> quaternion" where
  "handBoneCorrections =
     (let handCorrections = createHandCorrectionQuaternions
      in map_of [(''LeftHand'', left handCorrections),
                 (''RightHand'', right handCorrections),
                 (''LeftForeArm'', identityQuaternion),
                 (''RightForeArm'', identityQuaternion)])"

text \<open>
  A read of a typed array: \<^verbatim>\<open>undefined\<close> past the end. A write past the end of a typed
  array is ignored, which is what \<open>xs[i := v]\<close> does.
\<close>

definition readValue :: "real list \<Rightarrow> nat \<Rightarrow> real option" where
  "readValue values i = (if i < length values then Some (values ! i) else None)"

text \<open>The loop \<^verbatim>\<open>for (let i = 0; i < values.length; i += 4)\<close> over the samples.\<close>

function correctValues :: "quaternion \<Rightarrow> real list \<Rightarrow> nat \<Rightarrow> real list \<Rightarrow> real list" where
  "correctValues handCorrection values i correctedValues =
     (if i < length values then
        (let originalQuat =
               newQuaternion (readValue values i) (readValue values (i + 1))
                 (readValue values (i + 2)) (readValue values (i + 3));
             correctedQuat = multiply originalQuat handCorrection
         in correctValues handCorrection values (i + 4)
              (correctedValues[i := qx correctedQuat, i + 1 := qy correctedQuat,
                 i + 2 := qz correctedQuat, i + 3 := qw correctedQuat]))
      else correctedValues)"
  by pat_completeness auto
termination
  by (relation "measure (\<lambda>(handCorrection, values, i, correctedValues). length values - i)") auto

declare correctValues.simps [simp del]

text \<open>
  \<open>needsHandCorrection\<close>, for the key that \<open>mappedBoneName\<close> turns into: the correction
  of the mapped bone when the table has one, it is not the identity and the property is
  \<^verbatim>\<open>quaternion\<close>. An inherited value is truthy and has no method \<^verbatim>\<open>equals\<close>, so the call
  \<^verbatim>\<open>handCorrection.equals(...)\<close> throws a \<^verbatim>\<open>TypeError\<close>.
\<close>

definition needsHandCorrection :: "string \<Rightarrow> string \<Rightarrow> js_error + quaternion option" where
  "needsHandCorrection mappedBoneName property =
     (case getProperty handBoneCorrections mappedBoneName of
        Undefined \<Rightarrow> Inr None
      | Inherited key \<Rightarrow> Inl TypeError
      | Own handCorrection \<Rightarrow>
          Inr (if \<not> equals handCorrection identityQuaternion \<and> property = ''quaternion''
               then Some handCorrection else None))"

text \<open>
  The body of the loop over the tracks of the clip: the track it pushes onto
  \<open>newTracks\<close>, if any, and the diagnostics it reports. \<open>mappedBoneName\<close> is the result of
  the read \<^verbatim>\<open>boneNameMap[boneName]\<close>: \<^verbatim>\<open>undefined\<close> and the empty string are falsy and take
  the \<^verbatim>\<open>!mappedBoneName\<close> branch, an inherited value is truthy. An exception thrown in the
  iteration is caught there and reported.
\<close>

definition retargetTrack ::
  "(string \<rightharpoonup> string) \<Rightarrow> keyframe_track \<Rightarrow> keyframe_track option \<times> diagnostic list" where
  "retargetTrack boneNameMap track =
     (let dotIndex = lastIndexOf (track_name track) CHR ''.''
      in if dotIndex = - 1 then (None, [InvalidTrackName (track_name track)])
         else
           (let boneName = substring (track_name track) 0 dotIndex;
                property = substringFrom (track_name track) (dotIndex + 1);
                mappedBoneName = getProperty boneNameMap boneName
            in if mappedBoneName = Undefined \<or> mappedBoneName = Own [] then (None, [])
               else if property = ''position'' \<or> property = ''scale'' then (None, [])
               else
                 (let newTrackName = toStringValue mappedBoneName @ ''.'' @ property
                  in case needsHandCorrection (toStringValue mappedBoneName) property of
                       Inl err \<Rightarrow> (None, [TrackError (track_name track)])
                     | Inr (Some handCorrection) \<Rightarrow>
                         (let values = track_values track;
                              correctedValues =
                                correctValues handCorrection values 0
                                  (replicate (length values) 0)
                          in case newKeyframeTrack QuaternionKeyframeTrack newTrackName
                                    (track_times track) correctedValues of
                               Inr newTrack \<Rightarrow> (Some newTrack, [])
                             | Inl err \<Rightarrow> (None, [TrackError (track_name track)]))
                     | Inr None \<Rightarrow>
                         (case newKeyframeTrack (track_class track) newTrackName
                                 (track_times track) (track_values track) of
                            Inr newTrack \<Rightarrow> (Some newTrack, [])
                          | Inl err \<Rightarrow> (None, [TrackError (track_name track)])))))"

text \<open>One iteration of the loop: the effect of the body on \<open>newTracks\<close> and on the log.\<close>

definition retargetIteration ::
  "(string \<rightharpoonup> string) \<Rightarrow> keyframe_track \<Rightarrow> keyframe_track list \<times> diagnostic list
     \<Rightarrow> keyframe_track list \<times> diagnostic list" where
  "retargetIteration boneNameMap track = (\<lambda>(newTracks, logged).
     let (pushed, reported) = retargetTrack boneNameMap track
     in (case pushed of
           Some newTrack \<Rightarrow> newTracks @ [newTrack]
         | None \<Rightarrow> newTracks,
         logged @ reported))"

definition retargetAnimationClip ::
  "animation_clip \<Rightarrow> (string \<rightharpoonup> string) \<Rightarrow> string \<Rightarrow> animation_clip \<times> diagnostic list" where
  "retargetAnimationClip clip boneNameMap animationName =
     (let (newTracks, logged) = fold (retargetIteration boneNameMap) (clip_tracks clip) ([], []);
          logged =
            (if length newTracks = 0 then logged @ [NoTracksCreated animationName] else logged)
      in (newAnimationClip (if clip_name clip = [] then animationName else clip_name clip)
            (clip_duration clip) newTracks,
          logged))"

text \<open>
  The bone name and the property that a track name denotes, split at the last \<^verbatim>\<open>.\<close> as
  the file splits it.
\<close>

definition splitTrackName :: "string \<Rightarrow> (string \<times> string) option" where
  "splitTrackName name =
     (let dotIndex = lastIndexOf name CHR ''.''
      in if dotIndex = - 1 then None
         else Some (substring name 0 dotIndex, substringFrom name (dotIndex + 1)))"

definition trackBoneName :: "keyframe_track \<Rightarrow> string option" where
  "trackBoneName track = map_option fst (splitTrackName (track_name track))"

definition trackProperty :: "keyframe_track \<Rightarrow> string option" where
  "trackProperty track = map_option snd (splitTrackName (track_name track))"

text \<open>The \<open>k\<close>-th quaternion sample of a values buffer of stride 4.\<close>

definition sampleAt :: "real list \<Rightarrow> nat \<Rightarrow> quaternion" where
  "sampleAt values k =
     Quaternion (values ! (4 * k)) (values ! (4 * k + 1)) (values ! (4 * k + 2))
       (values ! (4 * k + 3))"

section \<open>Properties\<close>

subsection \<open>findSkinnedMesh\<close>

lemma find_append_first:
  "List.find P (xs @ ys) = (case List.find P xs of None \<Rightarrow> List.find P ys | Some x \<Rightarrow> Some x)"
  by (induction xs) auto

lemma find_as_filter:
  "List.find P xs = (case filter P xs of [] \<Rightarrow> None | x # _ \<Rightarrow> Some x)"
  by (induction xs) auto

lemma fold_traverse_preorder:
  assumes "\<And>c r. c \<in> set cs \<Longrightarrow>
      traverse (\<lambda>child result. if isSkinnedMesh child \<and> result = None then Some child else result) c r
        = (case r of Some x \<Rightarrow> Some x | None \<Rightarrow> List.find isSkinnedMesh (preorder c))"
  shows "fold (traverse (\<lambda>child result. if isSkinnedMesh child \<and> result = None then Some child else result)) cs r
        = (case r of Some x \<Rightarrow> Some x
           | None \<Rightarrow> List.find isSkinnedMesh (concat (map preorder cs)))"
  using assms
proof (induction cs arbitrary: r)
  case Nil
  then show ?case by (simp split: option.splits)
next
  case (Cons c cs)
  then show ?case by (simp add: find_append_first split: option.splits)
qed

lemma traverse_preorder:
  "traverse (\<lambda>child result. if isSkinnedMesh child \<and> result = None then Some child else result) object r
     = (case r of Some x \<Rightarrow> Some x | None \<Rightarrow> List.find isSkinnedMesh (preorder object))"
proof (induction object arbitrary: r)
  case (Object3D k f cs)
  show ?case
    by (simp add: fold_traverse_preorder [OF Object3D] split: option.splits)
qed

text \<open>
  Claim C8. \<^const>\<open>findSkinnedMesh\<close> returns the first node, in pre-order with the
  children in their array order, that is a skinned mesh, and \<^verbatim>\<open>null\<close> (\<^const>\<open>None\<close>) when the
  hierarchy holds no skinned mesh. The hierarchy is only read: the one variable the
  callback assigns is the local \<open>result\<close>, which is the whole state of the traversal.
\<close>

theorem findSkinnedMesh_first_in_preorder:
  "findSkinnedMesh object =
     (case filter isSkinnedMesh (preorder object) of
        [] \<Rightarrow> None
      | mesh # _ \<Rightarrow> Some mesh)"
  by (simp add: findSkinnedMesh_def traverse_preorder find_as_filter)

subsection \<open>The prefix pattern\<close>

lemma hasMixamorigPrefix_iff: "hasMixamorigPrefix s \<longleftrightarrow> (\<exists>r. s = ''mixamorig'' @ r)"
proof
  assume "hasMixamorigPrefix s"
  then have "s = ''mixamorig'' @ drop 9 s"
    unfolding hasMixamorigPrefix_def by (metis append_take_drop_id)
  then show "\<exists>r. s = ''mixamorig'' @ r" ..
next
  assume "\<exists>r. s = ''mixamorig'' @ r"
  then show "hasMixamorigPrefix s" by (auto simp: hasMixamorigPrefix_def)
qed

lemma removeMixamorigPrefix_unprefixed:
  "\<not> hasMixamorigPrefix s \<Longrightarrow> removeMixamorigPrefix s = s"
  by (simp add: removeMixamorigPrefix_def)

lemma removeMixamorigPrefix_plain:
  "take 1 r \<noteq> '':'' \<Longrightarrow> removeMixamorigPrefix (''mixamorig'' @ r) = r"
  by (simp add: removeMixamorigPrefix_def hasMixamorigPrefix_def)

lemma removeMixamorigPrefix_colon:
  "removeMixamorigPrefix (''mixamorig:'' @ r) = r"
  by (simp add: removeMixamorigPrefix_def hasMixamorigPrefix_def)

text \<open>
  Claim C6, as the code has it. The replacement is total and removes exactly one match of
  the pattern at the start of the name: a name without the prefix comes back unchanged; a
  name that starts with \<^verbatim>\<open>mixamorig:\<close> loses these ten characters, any other name that starts
  with \<^verbatim>\<open>mixamorig\<close> loses these nine; what is left starts with the prefix again exactly
  when the text behind the removed match does; the replacement is idempotent on every name
  whose result no longer starts with the prefix.
\<close>

theorem removeMixamorigPrefix_one_match:
  "(\<not> hasMixamorigPrefix boneName \<longrightarrow> removeMixamorigPrefix boneName = boneName) \<and>
   (hasMixamorigPrefix boneName \<longrightarrow>
      removeMixamorigPrefix boneName =
        (if take 10 boneName = ''mixamorig:'' then drop 10 boneName else drop 9 boneName) \<and>
      (boneName = ''mixamorig'' @ removeMixamorigPrefix boneName \<or>
       boneName = ''mixamorig:'' @ removeMixamorigPrefix boneName) \<and>
      (hasMixamorigPrefix (removeMixamorigPrefix boneName) \<longleftrightarrow>
         hasMixamorigPrefix (drop 9 boneName) \<or>
         take 10 boneName = ''mixamorig:'' \<and> hasMixamorigPrefix (drop 10 boneName))) \<and>
   (\<not> hasMixamorigPrefix (removeMixamorigPrefix boneName) \<longrightarrow>
      removeMixamorigPrefix (removeMixamorigPrefix boneName) = removeMixamorigPrefix boneName)"
proof (cases "hasMixamorigPrefix boneName")
  case False
  then show ?thesis by (simp add: removeMixamorigPrefix_unprefixed)
next
  case True
  then obtain r where r: "boneName = ''mixamorig'' @ r"
    using hasMixamorigPrefix_iff by blast
  show ?thesis
  proof (cases "take 1 r = '':''")
    case colon: True
    then obtain r' where r': "r = '':'' @ r'"
      by (metis append_take_drop_id)
    have eq: "boneName = ''mixamorig:'' @ r'" using r r' by simp
    have "removeMixamorigPrefix boneName = r'"
      unfolding eq by (rule removeMixamorigPrefix_colon)
    moreover have "\<not> hasMixamorigPrefix (drop 9 boneName)"
      unfolding eq by (simp add: hasMixamorigPrefix_def)
    ultimately show ?thesis
      using True eq by (simp add: removeMixamorigPrefix_unprefixed)
  next
    case nocolon: False
    have res: "removeMixamorigPrefix boneName = r"
      unfolding r using nocolon by (rule removeMixamorigPrefix_plain)
    have "take 10 boneName \<noteq> ''mixamorig:''"
    proof
      assume "take 10 boneName = ''mixamorig:''"
      then have "take 10 (''mixamorig'' @ r) = ''mixamorig'' @ '':''" using r by simp
      then have "take 1 r = '':''" by simp
      with nocolon show False by simp
    qed
    then show ?thesis
      using True res r by (simp add: removeMixamorigPrefix_unprefixed)
  qed
qed

text \<open>
  Claim C6, as the code has it, on a name with the colon form of the prefix, on one with the
  plain form, and on one without the prefix.
\<close>

theorem removeMixamorigPrefix_one_match_witness:
  "hasMixamorigPrefix ''mixamorig:LeftHand'' \<and>
   removeMixamorigPrefix ''mixamorig:LeftHand'' = ''LeftHand'' \<and>
   \<not> hasMixamorigPrefix (removeMixamorigPrefix ''mixamorig:LeftHand'') \<and>
   removeMixamorigPrefix (removeMixamorigPrefix ''mixamorig:LeftHand'')
     = removeMixamorigPrefix ''mixamorig:LeftHand'' \<and>
   hasMixamorigPrefix ''mixamorigHips'' \<and>
   removeMixamorigPrefix ''mixamorigHips'' = ''Hips'' \<and>
   \<not> hasMixamorigPrefix ''Hips'' \<and> removeMixamorigPrefix ''Hips'' = ''Hips''"
proof -
  note colon = removeMixamorigPrefix_one_match [of "''mixamorig:LeftHand''"]
  note plain = removeMixamorigPrefix_one_match [of "''mixamorigHips''"]
  note none = removeMixamorigPrefix_one_match [of "''Hips''"]
  have p1: "hasMixamorigPrefix ''mixamorig:LeftHand''" by (simp add: hasMixamorigPrefix_def)
  have p2: "hasMixamorigPrefix ''mixamorigHips''" by (simp add: hasMixamorigPrefix_def)
  have p3: "\<not> hasMixamorigPrefix ''Hips''" by (simp add: hasMixamorigPrefix_def)
  have p4: "\<not> hasMixamorigPrefix ''LeftHand''" by (simp add: hasMixamorigPrefix_def)
  from colon p1 have "removeMixamorigPrefix ''mixamorig:LeftHand'' =
      (if take 10 ''mixamorig:LeftHand'' = ''mixamorig:'' then drop 10 ''mixamorig:LeftHand''
       else drop 9 ''mixamorig:LeftHand'')"
    by blast
  then have r1: "removeMixamorigPrefix ''mixamorig:LeftHand'' = ''LeftHand''" by simp
  from plain p2 have "removeMixamorigPrefix ''mixamorigHips'' =
      (if take 10 ''mixamorigHips'' = ''mixamorig:'' then drop 10 ''mixamorigHips''
       else drop 9 ''mixamorigHips'')"
    by blast
  then have r2: "removeMixamorigPrefix ''mixamorigHips'' = ''Hips''" by simp
  from none p3 have r3: "removeMixamorigPrefix ''Hips'' = ''Hips''" by blast
  have n1: "\<not> hasMixamorigPrefix (removeMixamorigPrefix ''mixamorig:LeftHand'')"
    unfolding r1 by (rule p4)
  with colon have r4: "removeMixamorigPrefix (removeMixamorigPrefix ''mixamorig:LeftHand'')
      = removeMixamorigPrefix ''mixamorig:LeftHand''"
    by blast
  from p1 r1 n1 r4 p2 r2 p3 r3 show ?thesis by blast
qed

text \<open>
  Claim C6, as the specification words it, fails on a name that carries the prefix twice:
  the result still starts with the prefix, and a second replacement changes it again.
\<close>

theorem removeMixamorigPrefix_not_idempotent:
  "hasMixamorigPrefix ''mixamorigmixamorigHips'' \<and>
   removeMixamorigPrefix ''mixamorigmixamorigHips'' = ''mixamorigHips'' \<and>
   hasMixamorigPrefix (removeMixamorigPrefix ''mixamorigmixamorigHips'') \<and>
   removeMixamorigPrefix (removeMixamorigPrefix ''mixamorigmixamorigHips'')
     \<noteq> removeMixamorigPrefix ''mixamorigmixamorigHips''"
  by (simp add: hasMixamorigPrefix_def removeMixamorigPrefix_def)

subsection \<open>The rest-pose correction\<close>

lemma updateBoneByName_names [simp]:
  "map bone_name (updateBoneByName n f bs) = map bone_name bs"
  by (induction bs) auto

lemma updateBoneByName_length [simp]:
  "length (updateBoneByName n f bs) = length bs"
  by (induction bs) auto

lemma find_updateBoneByName:
  "List.find (\<lambda>b. bone_name b = m) (updateBoneByName n f bs) =
     (if m = n
      then map_option (\<lambda>b. b\<lparr>bone_quaternion := f (bone_quaternion b)\<rparr>)
             (List.find (\<lambda>b. bone_name b = n) bs)
      else List.find (\<lambda>b. bone_name b = m) bs)"
  by (induction bs) auto

lemma updateBoneByName_commute:
  "n \<noteq> m \<Longrightarrow> updateBoneByName n f (updateBoneByName m g bs)
     = updateBoneByName m g (updateBoneByName n f bs)"
  by (induction bs) auto

lemma updateBoneByName_twice:
  "updateBoneByName n f (updateBoneByName n g bs) = updateBoneByName n (\<lambda>q. f (g q)) bs"
  by (induction bs) auto

lemma updateBoneByName_absent:
  "List.find (\<lambda>b. bone_name b = n) bs = None \<Longrightarrow> updateBoneByName n f bs = bs"
  by (induction bs) (auto split: if_splits)

lemma updateBoneByName_fixed:
  "List.find (\<lambda>b. bone_name b = n) bs = Some b \<Longrightarrow> f (bone_quaternion b) = bone_quaternion b
     \<Longrightarrow> updateBoneByName n f bs = bs"
  by (induction bs) (auto split: if_splits)

lemma updateBoneByName_other:
  "i < length bs \<Longrightarrow> bone_name (bs ! i) \<noteq> n \<Longrightarrow> updateBoneByName n f bs ! i = bs ! i"
proof (induction bs arbitrary: i)
  case Nil
  then show ?case by simp
next
  case (Cons b bs)
  then show ?case by (cases i) auto
qed

lemma restoreStep_update:
  "restoreStep (n, q) sk = sk\<lparr>bones := updateBoneByName n (\<lambda>_. q) (bones sk)\<rparr>"
  by (simp add: restoreStep_def findBoneByName_def updateBoneByName_absent split: option.splits)

lemma tposeStep_found:
  "findBoneByName sk n = Some b \<Longrightarrow>
     tposeStep (n, a) (sk, orig, lg) =
       (sk\<lparr>bones := updateBoneByName n
                (\<lambda>q. multiplyQuaternions (setFromAxisAngle (Vector3 0 0 1) a) q) (bones sk)\<rparr>,
        AList.update n (bone_quaternion b) orig, lg)"
  by (simp add: tposeStep_def premultiply_def)

lemma tposeStep_missing:
  "findBoneByName sk n = None \<Longrightarrow>
     tposeStep (n, a) (sk, orig, lg) = (sk, orig, lg @ [BoneNotFound n])"
  by (simp add: tposeStep_def)

lemma alist_update_fresh:
  "n \<notin> fst ` set al \<Longrightarrow> AList.update n v al = al @ [(n, v)]"
  by (induction al) auto

lemma restore_fold_commute:
  "n \<notin> fst ` set orig \<Longrightarrow>
     fold restoreStep orig (sk\<lparr>bones := updateBoneByName n f (bones sk)\<rparr>)
       = (fold restoreStep orig sk)\<lparr>bones := updateBoneByName n f (bones (fold restoreStep orig sk))\<rparr>"
proof (induction orig arbitrary: sk)
  case Nil
  then show ?case by simp
next
  case (Cons p orig)
  obtain m q where p: "p = (m, q)" by (cases p)
  from Cons.prems p have neq: "m \<noteq> n" and rest: "n \<notin> fst ` set orig" by auto
  have "restoreStep p (sk\<lparr>bones := updateBoneByName n f (bones sk)\<rparr>)
        = (restoreStep p sk)\<lparr>bones := updateBoneByName n f (bones (restoreStep p sk))\<rparr>"
    using neq by (simp add: p restoreStep_update updateBoneByName_commute)
  then show ?case using Cons.IH [OF rest] by simp
qed

lemma tpose_fold_roundtrip:
  assumes "distinct (map fst ns)"
    and "fst ` set ns \<inter> fst ` set orig = {}"
    and "restoreAPose sk orig = sk0"
    and "\<And>n. n \<in> fst ` set ns \<Longrightarrow> findBoneByName sk n = findBoneByName sk0 n"
  shows "restoreAPose (fst (fold tposeStep ns (sk, orig, lg)))
           (fst (snd (fold tposeStep ns (sk, orig, lg)))) = sk0"
  using assms
proof (induction ns arbitrary: sk orig lg)
  case Nil
  then show ?case by simp
next
  case (Cons p ns)
  obtain n a where p: "p = (n, a)" by (cases p)
  from Cons.prems(1) p have dist: "distinct (map fst ns)" and nfresh: "n \<notin> fst ` set ns" by auto
  from Cons.prems(2) p have nkey: "n \<notin> fst ` set orig" and disj: "fst ` set ns \<inter> fst ` set orig = {}"
    by auto
  show ?case
  proof (cases "findBoneByName sk n")
    case None
    have "restoreAPose (fst (fold tposeStep ns (sk, orig, lg @ [BoneNotFound n])))
            (fst (snd (fold tposeStep ns (sk, orig, lg @ [BoneNotFound n])))) = sk0"
      using Cons.prems(3,4) by (intro Cons.IH [OF dist disj]) auto
    then show ?thesis by (simp add: p tposeStep_missing [OF None])
  next
    case (Some b)
    let ?f = "\<lambda>q. multiplyQuaternions (setFromAxisAngle (Vector3 0 0 1) a) q"
    let ?sk1 = "sk\<lparr>bones := updateBoneByName n ?f (bones sk)\<rparr>"
    let ?orig1 = "orig @ [(n, bone_quaternion b)]"
    have step: "tposeStep p (sk, orig, lg) = (?sk1, ?orig1, lg)"
      by (simp add: p tposeStep_found [OF Some] alist_update_fresh [OF nkey])
    have b0: "findBoneByName sk0 n = Some b"
      using Cons.prems(4) [of n] Some p by simp
    have "restoreAPose ?sk1 ?orig1 = restoreStep (n, bone_quaternion b) (fold restoreStep orig ?sk1)"
      by (simp add: restoreAPose_def)
    also have "fold restoreStep orig ?sk1 = sk0\<lparr>bones := updateBoneByName n ?f (bones sk0)\<rparr>"
      using restore_fold_commute [OF nkey, of ?f sk] Cons.prems(3) by (simp add: restoreAPose_def)
    also have "restoreStep (n, bone_quaternion b) (sk0\<lparr>bones := updateBoneByName n ?f (bones sk0)\<rparr>) = sk0"
      using b0 by (simp add: restoreStep_update updateBoneByName_twice updateBoneByName_fixed findBoneByName_def)
    finally have r1: "restoreAPose ?sk1 ?orig1 = sk0" .
    have disj1: "fst ` set ns \<inter> fst ` set ?orig1 = {}"
      using disj nfresh by auto
    have same: "findBoneByName ?sk1 m = findBoneByName sk0 m" if "m \<in> fst ` set ns" for m
    proof -
      from that nfresh have "m \<noteq> n" by auto
      then have "findBoneByName ?sk1 m = findBoneByName sk m"
        by (simp add: findBoneByName_def find_updateBoneByName)
      also have "\<dots> = findBoneByName sk0 m" using Cons.prems(4) [of m] that by simp
      finally show ?thesis .
    qed
    have "restoreAPose (fst (fold tposeStep ns (?sk1, ?orig1, lg)))
            (fst (snd (fold tposeStep ns (?sk1, ?orig1, lg)))) = sk0"
      by (rule Cons.IH [OF dist disj1 r1 same])
    then show ?thesis by (simp add: step)
  qed
qed

lemma armBones_names:
  "map fst armBones = [''LeftUpperArm'', ''RightUpperArm'', ''LeftShoulder'', ''RightShoulder'']"
  by (simp add: armBones_def)

lemma findBoneByName_update:
  "findBoneByName (sk\<lparr>bones := updateBoneByName n f (bones sk)\<rparr>) m =
     (if m = n
      then map_option (\<lambda>b. b\<lparr>bone_quaternion := f (bone_quaternion b)\<rparr>) (findBoneByName sk n)
      else findBoneByName sk m)"
  by (simp add: findBoneByName_def find_updateBoneByName)

lemma tposeStep_bones:
  "bones (fst (tposeStep (n, a) (sk, orig, lg))) =
     updateBoneByName n (\<lambda>q. multiplyQuaternions (setFromAxisAngle (Vector3 0 0 1) a) q) (bones sk)"
proof (cases "findBoneByName sk n")
  case None
  then show ?thesis
    by (simp add: tposeStep_missing updateBoneByName_absent findBoneByName_def [symmetric])
next
  case (Some b)
  then show ?thesis by (simp add: tposeStep_found)
qed

lemma tposeStep_missing_iff:
  "(findBoneByName (fst (tposeStep (n, a) (sk, orig, lg))) m = None) = (findBoneByName sk m = None)"
  by (cases "findBoneByName sk n")
     (auto simp: tposeStep_missing tposeStep_found findBoneByName_update)

lemma tpose_fold_bones:
  "bones (fst (fold tposeStep ns (sk, orig, lg))) =
     fold (\<lambda>(n, a). updateBoneByName n
             (\<lambda>q. multiplyQuaternions (setFromAxisAngle (Vector3 0 0 1) a) q)) ns (bones sk)"
proof (induction ns arbitrary: sk orig lg)
  case Nil
  then show ?case by simp
next
  case (Cons p ns)
  obtain n a where p: "p = (n, a)" by (cases p)
  obtain sk1 orig1 lg1 where s1: "tposeStep (n, a) (sk, orig, lg) = (sk1, orig1, lg1)"
    by (cases "tposeStep (n, a) (sk, orig, lg)")
  have "bones sk1 = updateBoneByName n
          (\<lambda>q. multiplyQuaternions (setFromAxisAngle (Vector3 0 0 1) a) q) (bones sk)"
    using tposeStep_bones [of n a sk orig lg] s1 by simp
  then show ?case using Cons.IH [of sk1 orig1 lg1] by (simp add: p s1)
qed

lemma tpose_fold_log:
  "snd (snd (fold tposeStep ns (sk, orig, lg))) =
     lg @ map BoneNotFound (filter (\<lambda>n. findBoneByName sk n = None) (map fst ns))"
proof (induction ns arbitrary: sk orig lg)
  case Nil
  then show ?case by simp
next
  case (Cons p ns)
  obtain n a where p: "p = (n, a)" by (cases p)
  show ?case
  proof (cases "findBoneByName sk n")
    case None
    then show ?thesis by (simp add: p tposeStep_missing Cons.IH)
  next
    case (Some b)
    have "\<And>m. (findBoneByName (sk\<lparr>bones := updateBoneByName n
             (\<lambda>q. multiplyQuaternions (setFromAxisAngle (Vector3 0 0 1) a) q) (bones sk)\<rparr>) m = None)
           = (findBoneByName sk m = None)"
      by (simp add: findBoneByName_update Some)
    then show ?thesis by (simp add: p tposeStep_found [OF Some] Cons.IH Some)
  qed
qed

lemma tpose_fold_keys:
  assumes "distinct (map fst ns)" and "fst ` set ns \<inter> fst ` set orig = {}"
  shows "map fst (fst (snd (fold tposeStep ns (sk, orig, lg)))) =
     map fst orig @ filter (\<lambda>n. findBoneByName sk n \<noteq> None) (map fst ns)"
  using assms
proof (induction ns arbitrary: sk orig lg)
  case Nil
  then show ?case by simp
next
  case (Cons p ns)
  obtain n a where p: "p = (n, a)" by (cases p)
  from Cons.prems(1) p have dist: "distinct (map fst ns)" and nfresh: "n \<notin> fst ` set ns" by auto
  from Cons.prems(2) p have nkey: "n \<notin> fst ` set orig" and disj: "fst ` set ns \<inter> fst ` set orig = {}"
    by auto
  show ?case
  proof (cases "findBoneByName sk n")
    case None
    then show ?thesis by (simp add: p tposeStep_missing Cons.IH [OF dist disj])
  next
    case (Some b)
    have same: "\<And>m. (findBoneByName (sk\<lparr>bones := updateBoneByName n
             (\<lambda>q. multiplyQuaternions (setFromAxisAngle (Vector3 0 0 1) a) q) (bones sk)\<rparr>) m = None)
           = (findBoneByName sk m = None)"
      by (simp add: findBoneByName_update Some)
    have disj1: "fst ` set ns \<inter> fst ` set (orig @ [(n, bone_quaternion b)]) = {}"
      using disj nfresh by auto
    show ?thesis
      by (simp add: p tposeStep_found [OF Some] alist_update_fresh [OF nkey]
            Cons.IH [OF dist disj1] same Some)
  qed
qed

lemma restore_fold_names:
  "map bone_name (bones (fold restoreStep delta sk)) = map bone_name (bones sk)"
proof (induction delta arbitrary: sk)
  case Nil
  then show ?case by simp
next
  case (Cons p delta)
  obtain m q where p: "p = (m, q)" by (cases p)
  show ?case by (simp add: p Cons.IH restoreStep_update)
qed

lemma restore_fold_other:
  assumes "i < length (bones sk)" and "bone_name (bones sk ! i) \<notin> fst ` set delta"
  shows "bones (fold restoreStep delta sk) ! i = bones sk ! i"
  using assms
proof (induction delta arbitrary: sk)
  case Nil
  then show ?case by simp
next
  case (Cons p delta)
  obtain m q where p: "p = (m, q)" by (cases p)
  let ?sk1 = "restoreStep p sk"
  have b1: "bones ?sk1 = updateBoneByName m (\<lambda>_. q) (bones sk)"
    by (simp add: p restoreStep_update)
  from Cons.prems p have neq: "bone_name (bones sk ! i) \<noteq> m"
    and rest: "bone_name (bones sk ! i) \<notin> fst ` set delta" by auto
  have same: "bones ?sk1 ! i = bones sk ! i"
    using Cons.prems(1) neq by (simp add: b1 updateBoneByName_other)
  have len1: "i < length (bones ?sk1)"
    using Cons.prems(1) by (simp add: b1)
  have rest1: "bone_name (bones ?sk1 ! i) \<notin> fst ` set delta"
    unfolding same by (rule rest)
  have "bones (fold restoreStep delta ?sk1) ! i = bones ?sk1 ! i"
    by (rule Cons.IH [OF len1 rest1])
  then show ?case by (simp add: same)
qed

text \<open>
  Claim C4. Applying \<^const>\<open>applyTPoseCorrection\<close> to a skeleton and then
  \<^const>\<open>restoreAPose\<close> with the returned map of original rotations gives back the skeleton
  it started from: every bone has the local rotation it had before the correction.
\<close>

theorem restoreAPose_applyTPoseCorrection:
  "restoreAPose (fst (applyTPoseCorrection skeleton)) (fst (snd (applyTPoseCorrection skeleton)))
     = skeleton"
  unfolding applyTPoseCorrection_def
  by (rule tpose_fold_roundtrip) (simp_all add: armBones_names restoreAPose_def)

text \<open>Claim C4 on a skeleton that has one of the four arm bones.\<close>

theorem restoreAPose_applyTPoseCorrection_example:
  "restoreAPose
     (fst (applyTPoseCorrection
        \<lparr>bones = [\<lparr>bone_name = ''Hips'', bone_quaternion = Quaternion 0 0 0 1\<rparr>,
                  \<lparr>bone_name = ''LeftUpperArm'', bone_quaternion = Quaternion 0 1 0 0\<rparr>]\<rparr>))
     (fst (snd (applyTPoseCorrection
        \<lparr>bones = [\<lparr>bone_name = ''Hips'', bone_quaternion = Quaternion 0 0 0 1\<rparr>,
                  \<lparr>bone_name = ''LeftUpperArm'', bone_quaternion = Quaternion 0 1 0 0\<rparr>]\<rparr>)))
   = \<lparr>bones = [\<lparr>bone_name = ''Hips'', bone_quaternion = Quaternion 0 0 0 1\<rparr>,
               \<lparr>bone_name = ''LeftUpperArm'', bone_quaternion = Quaternion 0 1 0 0\<rparr>]\<rparr>"
  by (rule restoreAPose_applyTPoseCorrection)

text \<open>
  Claim C10. \<^const>\<open>restoreAPose\<close> keeps the bone array's length and leaves every bone
  whose name is not a key of the map it is given as it was; and the keys of the map that
  \<^const>\<open>applyTPoseCorrection\<close> returns are exactly those of the four arm-bone names that
  \<^const>\<open>findBoneByName\<close> finds in the skeleton, in the order of the table.
\<close>

theorem restoreAPose_frame:
  "length (bones (restoreAPose skeleton originalRotations)) = length (bones skeleton) \<and>
   (\<forall>i < length (bones skeleton).
      bone_name (bones skeleton ! i) \<notin> fst ` set originalRotations \<longrightarrow>
      bones (restoreAPose skeleton originalRotations) ! i = bones skeleton ! i) \<and>
   map fst (fst (snd (applyTPoseCorrection skeleton))) =
     filter (\<lambda>name. findBoneByName skeleton name \<noteq> None)
       [''LeftUpperArm'', ''RightUpperArm'', ''LeftShoulder'', ''RightShoulder'']"
proof (intro conjI allI impI)
  show "length (bones (restoreAPose skeleton originalRotations)) = length (bones skeleton)"
    using restore_fold_names [of originalRotations skeleton]
    unfolding restoreAPose_def by (metis length_map)
next
  fix i
  assume "i < length (bones skeleton)"
    and "bone_name (bones skeleton ! i) \<notin> fst ` set originalRotations"
  then show "bones (restoreAPose skeleton originalRotations) ! i = bones skeleton ! i"
    unfolding restoreAPose_def by (rule restore_fold_other)
next
  show "map fst (fst (snd (applyTPoseCorrection skeleton))) =
     filter (\<lambda>name. findBoneByName skeleton name \<noteq> None)
       [''LeftUpperArm'', ''RightUpperArm'', ''LeftShoulder'', ''RightShoulder'']"
    using tpose_fold_keys [of armBones "[]" skeleton "[]"]
    by (simp add: applyTPoseCorrection_def armBones_names)
qed

text \<open>Claim C10 on a skeleton with a bone outside the map.\<close>

theorem restoreAPose_frame_witness:
  "(0::nat) < length (bones
      \<lparr>bones = [\<lparr>bone_name = ''Hips'', bone_quaternion = Quaternion 0 0 0 1\<rparr>,
                \<lparr>bone_name = ''LeftUpperArm'', bone_quaternion = Quaternion 0 1 0 0\<rparr>]\<rparr>) \<and>
   bone_name (bones
      \<lparr>bones = [\<lparr>bone_name = ''Hips'', bone_quaternion = Quaternion 0 0 0 1\<rparr>,
                \<lparr>bone_name = ''LeftUpperArm'', bone_quaternion = Quaternion 0 1 0 0\<rparr>]\<rparr> ! 0)
     \<notin> fst ` set [(''LeftUpperArm'', Quaternion 1 0 0 0)] \<and>
   bones (restoreAPose
      \<lparr>bones = [\<lparr>bone_name = ''Hips'', bone_quaternion = Quaternion 0 0 0 1\<rparr>,
                \<lparr>bone_name = ''LeftUpperArm'', bone_quaternion = Quaternion 0 1 0 0\<rparr>]\<rparr>
      [(''LeftUpperArm'', Quaternion 1 0 0 0)]) ! 0
     = \<lparr>bone_name = ''Hips'', bone_quaternion = Quaternion 0 0 0 1\<rparr> \<and>
   map fst (fst (snd (applyTPoseCorrection
      \<lparr>bones = [\<lparr>bone_name = ''Hips'', bone_quaternion = Quaternion 0 0 0 1\<rparr>,
                \<lparr>bone_name = ''LeftUpperArm'', bone_quaternion = Quaternion 0 1 0 0\<rparr>]\<rparr>)))
     = [''LeftUpperArm'']"
  using restoreAPose_frame
    [of "\<lparr>bones = [\<lparr>bone_name = ''Hips'', bone_quaternion = Quaternion 0 0 0 1\<rparr>,
                  \<lparr>bone_name = ''LeftUpperArm'', bone_quaternion = Quaternion 0 1 0 0\<rparr>]\<rparr>"
        "[(''LeftUpperArm'', Quaternion 1 0 0 0)]"]
  by (simp add: findBoneByName_def)

lemma fold_update_names:
  "map bone_name (fold (\<lambda>(n, a). updateBoneByName n (F a)) ns bs) = map bone_name bs"
  by (induction ns arbitrary: bs) (auto simp: case_prod_beta)

lemma fold_update_find_other:
  "m \<notin> fst ` set ns \<Longrightarrow>
     List.find (\<lambda>b. bone_name b = m) (fold (\<lambda>(n, a). updateBoneByName n (F a)) ns bs)
       = List.find (\<lambda>b. bone_name b = m) bs"
  by (induction ns arbitrary: bs) (auto simp: case_prod_beta find_updateBoneByName)

lemma fold_update_find:
  assumes "distinct (map fst ns)" and "(m, c) \<in> set ns"
  shows "List.find (\<lambda>b. bone_name b = m) (fold (\<lambda>(n, a). updateBoneByName n (F a)) ns bs)
       = map_option (\<lambda>b. b\<lparr>bone_quaternion := F c (bone_quaternion b)\<rparr>)
           (List.find (\<lambda>b. bone_name b = m) bs)"
  using assms
proof (induction ns arbitrary: bs)
  case Nil
  then show ?case by simp
next
  case (Cons p ns)
  obtain n a where p: "p = (n, a)" by (cases p)
  from Cons.prems(1) p have dist: "distinct (map fst ns)" and nfresh: "n \<notin> fst ` set ns" by auto
  show ?case
  proof (cases "(m, c) = (n, a)")
    case True
    then have "m \<notin> fst ` set ns" using nfresh by simp
    then show ?thesis
      using True by (simp add: p fold_update_find_other find_updateBoneByName)
  next
    case False
    with Cons.prems(2) p have mem: "(m, c) \<in> set ns" by auto
    then have "m \<noteq> n" using nfresh by force
    then show ?thesis
      using Cons.IH [OF dist mem] by (simp add: p find_updateBoneByName)
  qed
qed

lemma fold_update_other:
  assumes "i < length bs" and "bone_name (bs ! i) \<notin> fst ` set ns"
  shows "fold (\<lambda>(n, a). updateBoneByName n (F a)) ns bs ! i = bs ! i"
  using assms
proof (induction ns arbitrary: bs)
  case Nil
  then show ?case by simp
next
  case (Cons p ns)
  obtain n a where p: "p = (n, a)" by (cases p)
  let ?bs1 = "updateBoneByName n (F a) bs"
  from Cons.prems p have neq: "bone_name (bs ! i) \<noteq> n"
    and rest: "bone_name (bs ! i) \<notin> fst ` set ns" by auto
  have same: "?bs1 ! i = bs ! i"
    using Cons.prems(1) neq by (simp add: updateBoneByName_other)
  have len1: "i < length ?bs1" using Cons.prems(1) by simp
  have rest1: "bone_name (?bs1 ! i) \<notin> fst ` set ns"
    unfolding same by (rule rest)
  have "fold (\<lambda>(n, a). updateBoneByName n (F a)) ns ?bs1 ! i = ?bs1 ! i"
    by (rule Cons.IH [OF len1 rest1])
  then show ?case by (simp add: p same)
qed

lemma multiplyQuaternions_z_rotation:
  "multiplyQuaternions (setFromAxisAngle (Vector3 0 0 1) angle) q =
     Quaternion (cos (angle / 2) * qx q - sin (angle / 2) * qy q)
       (cos (angle / 2) * qy q + sin (angle / 2) * qx q)
       (cos (angle / 2) * qz q + sin (angle / 2) * qw q)
       (cos (angle / 2) * qw q - sin (angle / 2) * qz q)"
  by (simp add: multiplyQuaternions_def setFromAxisAngle_def Let_def)

text \<open>
  Claim C5. The table of \<^const>\<open>applyTPoseCorrection\<close> gives the left upper arm the offset
  of 40 degrees, the right upper arm its negation, and each shoulder 0.3 times the angle of
  the upper arm of its side. For each entry of the table the bone that
  \<^const>\<open>findBoneByName\<close> finds has afterwards the rotation \<open>c * q\<close>, where \<open>q\<close> is its
  rotation before and \<open>c\<close> the rotation about the Z axis by the entry's angle
  (pre-multiplication): with \<open>k\<close> and \<open>s\<close> the cosine and the sine of half the angle, the
  components of the new rotation are \<open>k x - s y\<close>, \<open>k y + s x\<close>, \<open>k z + s w\<close> and
  \<open>k w - s z\<close>. A name that is not found stays not found. The log holds one
  \<^const>\<open>BoneNotFound\<close> warning for each missing name and nothing else, the function returns
  a result in every case, and bones with other names are untouched.
\<close>

theorem applyTPoseCorrection_premultiplies:
  "armBones =
     [(''LeftUpperArm'', 40 * (pi / 180)), (''RightUpperArm'', - (40 * (pi / 180))),
      (''LeftShoulder'', 40 * (pi / 180) * 0.3), (''RightShoulder'', - (40 * (pi / 180)) * 0.3)] \<and>
   (\<forall>name angle. (name, angle) \<in> set armBones \<longrightarrow>
      findBoneByName (fst (applyTPoseCorrection skeleton)) name =
        map_option
          (\<lambda>bone. bone\<lparr>bone_quaternion :=
             multiplyQuaternions (setFromAxisAngle (Vector3 0 0 1) angle) (bone_quaternion bone)\<rparr>)
          (findBoneByName skeleton name)) \<and>
   (\<forall>name angle bone. (name, angle) \<in> set armBones \<and> findBoneByName skeleton name = Some bone \<longrightarrow>
      findBoneByName (fst (applyTPoseCorrection skeleton)) name =
        Some (bone\<lparr>bone_quaternion :=
          Quaternion
            (cos (angle / 2) * qx (bone_quaternion bone) - sin (angle / 2) * qy (bone_quaternion bone))
            (cos (angle / 2) * qy (bone_quaternion bone) + sin (angle / 2) * qx (bone_quaternion bone))
            (cos (angle / 2) * qz (bone_quaternion bone) + sin (angle / 2) * qw (bone_quaternion bone))
            (cos (angle / 2) * qw (bone_quaternion bone) - sin (angle / 2) * qz (bone_quaternion bone))\<rparr>)) \<and>
   snd (snd (applyTPoseCorrection skeleton)) =
     map BoneNotFound (filter (\<lambda>name. findBoneByName skeleton name = None) (map fst armBones)) \<and>
   (\<forall>i < length (bones skeleton).
      bone_name (bones skeleton ! i) \<notin> fst ` set armBones \<longrightarrow>
      bones (fst (applyTPoseCorrection skeleton)) ! i = bones skeleton ! i)"
proof (intro conjI)
  show "armBones =
     [(''LeftUpperArm'', 40 * (pi / 180)), (''RightUpperArm'', - (40 * (pi / 180))),
      (''LeftShoulder'', 40 * (pi / 180) * 0.3), (''RightShoulder'', - (40 * (pi / 180)) * 0.3)]"
    by (simp add: armBones_def APOSE_TO_TPOSE_OFFSET_def degToRad_def)
next
  have b: "bones (fst (applyTPoseCorrection skeleton)) =
     fold (\<lambda>(n, a). updateBoneByName n
             (\<lambda>q. multiplyQuaternions (setFromAxisAngle (Vector3 0 0 1) a) q)) armBones (bones skeleton)"
    unfolding applyTPoseCorrection_def by (rule tpose_fold_bones)
  show pre: "\<forall>name angle. (name, angle) \<in> set armBones \<longrightarrow>
      findBoneByName (fst (applyTPoseCorrection skeleton)) name =
        map_option
          (\<lambda>bone. bone\<lparr>bone_quaternion :=
             multiplyQuaternions (setFromAxisAngle (Vector3 0 0 1) angle) (bone_quaternion bone)\<rparr>)
          (findBoneByName skeleton name)"
    using fold_update_find [of armBones _ _ "\<lambda>a q. multiplyQuaternions (setFromAxisAngle (Vector3 0 0 1) a) q" "bones skeleton"]
    by (simp add: findBoneByName_def b armBones_names)
  show "\<forall>name angle bone. (name, angle) \<in> set armBones \<and> findBoneByName skeleton name = Some bone \<longrightarrow>
      findBoneByName (fst (applyTPoseCorrection skeleton)) name =
        Some (bone\<lparr>bone_quaternion :=
          Quaternion
            (cos (angle / 2) * qx (bone_quaternion bone) - sin (angle / 2) * qy (bone_quaternion bone))
            (cos (angle / 2) * qy (bone_quaternion bone) + sin (angle / 2) * qx (bone_quaternion bone))
            (cos (angle / 2) * qz (bone_quaternion bone) + sin (angle / 2) * qw (bone_quaternion bone))
            (cos (angle / 2) * qw (bone_quaternion bone) - sin (angle / 2) * qz (bone_quaternion bone))\<rparr>)"
  proof (intro allI impI)
    fix name angle and bone :: bone
    assume h: "(name, angle) \<in> set armBones \<and> findBoneByName skeleton name = Some bone"
    then have m: "(name, angle) \<in> set armBones"
      and f: "findBoneByName skeleton name = Some bone"
      by simp_all
    from pre m have "findBoneByName (fst (applyTPoseCorrection skeleton)) name =
        map_option
          (\<lambda>bone. bone\<lparr>bone_quaternion :=
             multiplyQuaternions (setFromAxisAngle (Vector3 0 0 1) angle) (bone_quaternion bone)\<rparr>)
          (findBoneByName skeleton name)"
      by blast
    then have "findBoneByName (fst (applyTPoseCorrection skeleton)) name =
        Some (bone\<lparr>bone_quaternion :=
             multiplyQuaternions (setFromAxisAngle (Vector3 0 0 1) angle) (bone_quaternion bone)\<rparr>)"
      by (simp add: f)
    then show "findBoneByName (fst (applyTPoseCorrection skeleton)) name =
        Some (bone\<lparr>bone_quaternion :=
          Quaternion
            (cos (angle / 2) * qx (bone_quaternion bone) - sin (angle / 2) * qy (bone_quaternion bone))
            (cos (angle / 2) * qy (bone_quaternion bone) + sin (angle / 2) * qx (bone_quaternion bone))
            (cos (angle / 2) * qz (bone_quaternion bone) + sin (angle / 2) * qw (bone_quaternion bone))
            (cos (angle / 2) * qw (bone_quaternion bone) - sin (angle / 2) * qz (bone_quaternion bone))\<rparr>)"
      by (simp only: multiplyQuaternions_z_rotation)
  qed
  show "\<forall>i < length (bones skeleton).
      bone_name (bones skeleton ! i) \<notin> fst ` set armBones \<longrightarrow>
      bones (fst (applyTPoseCorrection skeleton)) ! i = bones skeleton ! i"
    using fold_update_other [of _ "bones skeleton" armBones "\<lambda>a q. multiplyQuaternions (setFromAxisAngle (Vector3 0 0 1) a) q"]
    by (simp add: b)
next
  show "snd (snd (applyTPoseCorrection skeleton)) =
     map BoneNotFound (filter (\<lambda>name. findBoneByName skeleton name = None) (map fst armBones))"
    using tpose_fold_log [of armBones skeleton "[]" "[]"]
    by (simp add: applyTPoseCorrection_def)
qed

text \<open>
  Claim C5 on a skeleton that has the left upper arm only, turned half a turn about X. The
  new rotation is \<open>c * q\<close>; it is neither \<open>q * c\<close> nor \<open>c\<close> alone.
\<close>

theorem applyTPoseCorrection_premultiplies_witness:
  "(''LeftUpperArm'', 40 * (pi / 180)) \<in> set armBones \<and>
   findBoneByName
      \<lparr>bones = [\<lparr>bone_name = ''Hips'', bone_quaternion = Quaternion 0 0 0 1\<rparr>,
                \<lparr>bone_name = ''LeftUpperArm'', bone_quaternion = Quaternion 1 0 0 0\<rparr>]\<rparr>
      ''LeftUpperArm''
     = Some \<lparr>bone_name = ''LeftUpperArm'', bone_quaternion = Quaternion 1 0 0 0\<rparr> \<and>
   findBoneByName (fst (applyTPoseCorrection
      \<lparr>bones = [\<lparr>bone_name = ''Hips'', bone_quaternion = Quaternion 0 0 0 1\<rparr>,
                \<lparr>bone_name = ''LeftUpperArm'', bone_quaternion = Quaternion 1 0 0 0\<rparr>]\<rparr>))
     ''LeftUpperArm''
     = Some \<lparr>bone_name = ''LeftUpperArm'',
             bone_quaternion =
               Quaternion (cos (40 * (pi / 180) / 2)) (sin (40 * (pi / 180) / 2)) 0 0\<rparr> \<and>
   Quaternion (cos (40 * (pi / 180) / 2)) (sin (40 * (pi / 180) / 2)) 0 0
     = multiplyQuaternions (setFromAxisAngle (Vector3 0 0 1) (40 * (pi / 180)))
         (Quaternion 1 0 0 0) \<and>
   Quaternion (cos (40 * (pi / 180) / 2)) (sin (40 * (pi / 180) / 2)) 0 0
     \<noteq> multiplyQuaternions (Quaternion 1 0 0 0)
         (setFromAxisAngle (Vector3 0 0 1) (40 * (pi / 180))) \<and>
   Quaternion (cos (40 * (pi / 180) / 2)) (sin (40 * (pi / 180) / 2)) 0 0
     \<noteq> setFromAxisAngle (Vector3 0 0 1) (40 * (pi / 180)) \<and>
   Quaternion (cos (40 * (pi / 180) / 2)) (sin (40 * (pi / 180) / 2)) 0 0
     \<noteq> Quaternion 1 0 0 0 \<and>
   snd (snd (applyTPoseCorrection
      \<lparr>bones = [\<lparr>bone_name = ''Hips'', bone_quaternion = Quaternion 0 0 0 1\<rparr>,
                \<lparr>bone_name = ''LeftUpperArm'', bone_quaternion = Quaternion 1 0 0 0\<rparr>]\<rparr>))
     = [BoneNotFound ''RightUpperArm'', BoneNotFound ''LeftShoulder'',
        BoneNotFound ''RightShoulder''] \<and>
   bones (fst (applyTPoseCorrection
      \<lparr>bones = [\<lparr>bone_name = ''Hips'', bone_quaternion = Quaternion 0 0 0 1\<rparr>,
                \<lparr>bone_name = ''LeftUpperArm'', bone_quaternion = Quaternion 1 0 0 0\<rparr>]\<rparr>)) ! 0
     = \<lparr>bone_name = ''Hips'', bone_quaternion = Quaternion 0 0 0 1\<rparr>"
proof -
  let ?arm = "\<lparr>bone_name = ''LeftUpperArm'', bone_quaternion = Quaternion 1 0 0 0\<rparr>"
  let ?sk = "\<lparr>bones = [\<lparr>bone_name = ''Hips'', bone_quaternion = Quaternion 0 0 0 1\<rparr>, ?arm]\<rparr>"
  let ?h = "40 * (pi / 180) / 2"
  note t = applyTPoseCorrection_premultiplies [of ?sk]
  have names: "map fst armBones =
      [''LeftUpperArm'', ''RightUpperArm'', ''LeftShoulder'', ''RightShoulder'']"
    by (simp add: armBones_def)
  have mem: "(''LeftUpperArm'', 40 * (pi / 180)) \<in> set armBones"
    by (subst t [THEN conjunct1]) simp
  have before: "findBoneByName ?sk ''LeftUpperArm'' = Some ?arm"
    by (simp add: findBoneByName_def)
  from t mem before have "findBoneByName (fst (applyTPoseCorrection ?sk)) ''LeftUpperArm'' =
      Some (?arm\<lparr>bone_quaternion :=
          Quaternion
            (cos ?h * qx (bone_quaternion ?arm) - sin ?h * qy (bone_quaternion ?arm))
            (cos ?h * qy (bone_quaternion ?arm) + sin ?h * qx (bone_quaternion ?arm))
            (cos ?h * qz (bone_quaternion ?arm) + sin ?h * qw (bone_quaternion ?arm))
            (cos ?h * qw (bone_quaternion ?arm) - sin ?h * qz (bone_quaternion ?arm))\<rparr>)"
    by blast
  then have found: "findBoneByName (fst (applyTPoseCorrection ?sk)) ''LeftUpperArm'' =
      Some \<lparr>bone_name = ''LeftUpperArm'', bone_quaternion = Quaternion (cos ?h) (sin ?h) 0 0\<rparr>"
    by simp
  have "0 < ?h" and "?h < pi" using pi_gt_zero by simp_all
  then have pos: "0 < sin ?h" by (rule sin_gt_zero)
  have prod: "Quaternion (cos ?h) (sin ?h) 0 0
      = multiplyQuaternions (setFromAxisAngle (Vector3 0 0 1) (40 * (pi / 180))) (Quaternion 1 0 0 0)"
    by (simp add: multiplyQuaternions_def setFromAxisAngle_def Let_def)
  have post: "Quaternion (cos ?h) (sin ?h) 0 0
      \<noteq> multiplyQuaternions (Quaternion 1 0 0 0) (setFromAxisAngle (Vector3 0 0 1) (40 * (pi / 180)))"
    using pos by (simp add: multiplyQuaternions_def setFromAxisAngle_def Let_def)
  have over: "Quaternion (cos ?h) (sin ?h) 0 0 \<noteq> setFromAxisAngle (Vector3 0 0 1) (40 * (pi / 180))"
    using pos by (simp add: setFromAxisAngle_def Let_def)
  have moved: "Quaternion (cos ?h) (sin ?h) 0 0 \<noteq> Quaternion 1 0 0 0"
    using pos by simp
  from t have "snd (snd (applyTPoseCorrection ?sk)) =
      map BoneNotFound (filter (\<lambda>name. findBoneByName ?sk name = None) (map fst armBones))"
    by blast
  then have warned: "snd (snd (applyTPoseCorrection ?sk)) =
      [BoneNotFound ''RightUpperArm'', BoneNotFound ''LeftShoulder'',
       BoneNotFound ''RightShoulder'']"
    by (simp add: names findBoneByName_def)
  have "(0::nat) < length (bones ?sk)" by simp
  moreover have "bone_name (bones ?sk ! 0) \<notin> fst ` set armBones"
    by (simp add: armBones_def)
  ultimately have "bones (fst (applyTPoseCorrection ?sk)) ! 0 = bones ?sk ! 0"
    using t by blast
  then have kept: "bones (fst (applyTPoseCorrection ?sk)) ! 0 =
      \<lparr>bone_name = ''Hips'', bone_quaternion = Quaternion 0 0 0 1\<rparr>"
    by simp
  from mem before found prod post over moved warned kept show ?thesis by blast
qed

subsection \<open>Track names\<close>

lemma lastIndexOf_lower: "- 1 \<le> lastIndexOf s c"
  by (induction s) (auto simp: Let_def)

lemma lastIndexOf_absent: "(lastIndexOf s c = - 1) = (c \<notin> set s)"
proof (induction s)
  case Nil
  then show ?case by simp
next
  case (Cons x xs)
  then show ?case using lastIndexOf_lower [of xs c] by (auto simp: Let_def)
qed

lemma lastIndexOf_upper: "lastIndexOf s c < int (length s)"
  by (induction s) (auto simp: Let_def)

lemma lastIndexOf_append:
  "c \<notin> set p \<Longrightarrow> lastIndexOf (b @ c # p) c = int (length b)"
proof (induction b)
  case Nil
  then show ?case using lastIndexOf_absent [of p c] by (simp add: Let_def)
next
  case (Cons x b)
  then show ?case by (simp add: Let_def)
qed

lemma lastIndexOf_split:
  "lastIndexOf s c \<noteq> - 1 \<Longrightarrow>
     s = take (nat (lastIndexOf s c)) s @ c # drop (nat (lastIndexOf s c + 1)) s \<and>
     c \<notin> set (drop (nat (lastIndexOf s c + 1)) s)"
proof (induction s)
  case Nil
  then show ?case by simp
next
  case (Cons x xs)
  show ?case
  proof (cases "lastIndexOf xs c = - 1")
    case True
    with Cons.prems have "x = c" by (simp add: Let_def split: if_splits)
    with True show ?thesis using lastIndexOf_absent [of xs c] by (simp add: Let_def)
  next
    case False
    have ge: "0 \<le> lastIndexOf xs c" using False lastIndexOf_lower [of xs c] by linarith
    have r: "lastIndexOf (x # xs) c = lastIndexOf xs c + 1" using False by (simp add: Let_def)
    have n1: "nat (lastIndexOf xs c + 1) = Suc (nat (lastIndexOf xs c))" using ge by linarith
    have n2: "nat (lastIndexOf xs c + 1 + 1) = Suc (nat (lastIndexOf xs c + 1))" using ge by linarith
    from Cons.IH [OF False] show ?thesis
      unfolding r n2 by (simp add: n1)
  qed
qed

lemma splitTrackName_None: "(splitTrackName s = None) = (CHR ''.'' \<notin> set s)"
  by (simp add: splitTrackName_def Let_def lastIndexOf_absent)

lemma splitTrackName_join:
  "CHR ''.'' \<notin> set p \<Longrightarrow> splitTrackName (b @ ''.'' @ p) = Some (b, p)"
  using lastIndexOf_append [of "CHR ''.''" p b]
  by (simp add: splitTrackName_def Let_def substring_def substringFrom_def nat_add_distrib)

lemma splitTrackName_Some:
  assumes "splitTrackName s = Some (b, p)"
  shows "s = b @ ''.'' @ p \<and> CHR ''.'' \<notin> set p"
proof -
  from assms have ne: "lastIndexOf s CHR ''.'' \<noteq> - 1"
    and b: "b = substring s 0 (lastIndexOf s CHR ''.'')"
    and p: "p = substringFrom s (lastIndexOf s CHR ''.'' + 1)"
    by (auto simp: splitTrackName_def Let_def split: if_splits)
  from lastIndexOf_split [OF ne] show ?thesis
    by (simp add: b p substring_def substringFrom_def)
qed

subsection \<open>The track retargeter\<close>

lemma createHandCorrectionQuaternions_value [code]:
  "createHandCorrectionQuaternions = \<lparr>left = Quaternion 1 0 0 0, right = Quaternion 1 0 0 0\<rparr>"
  by (simp add: createHandCorrectionQuaternions_def setFromAxisAngle_def Let_def)

lemma needsHandCorrection_eq:
  "needsHandCorrection key property =
     (if key \<in> set objectPrototypeKeys then Inl TypeError
      else Inr (if (key = ''LeftHand'' \<or> key = ''RightHand'') \<and> property = ''quaternion''
                then Some (Quaternion 1 0 0 0) else None))"
  by (auto simp: needsHandCorrection_def getProperty_def handBoneCorrections_def
        createHandCorrectionQuaternions_value equals_def identityQuaternion_def Let_def
        objectPrototypeKeys_def)

lemma retargetTrack_eq:
  "retargetTrack m t =
     (case splitTrackName (track_name t) of
        None \<Rightarrow> (None, [InvalidTrackName (track_name t)])
      | Some (boneName, property) \<Rightarrow>
          if getProperty m boneName = Undefined \<or> getProperty m boneName = Own [] \<or>
             property = ''position'' \<or> property = ''scale''
          then (None, [])
          else
            (case needsHandCorrection (toStringValue (getProperty m boneName)) property of
               Inl err \<Rightarrow> (None, [TrackError (track_name t)])
             | Inr hc \<Rightarrow>
                 if track_times t = [] then (None, [TrackError (track_name t)])
                 else
                   (Some \<lparr>track_class =
                            (case hc of
                               Some c \<Rightarrow> QuaternionKeyframeTrack | None \<Rightarrow> track_class t),
                          track_name = toStringValue (getProperty m boneName) @ ''.'' @ property,
                          track_times = track_times t,
                          track_values =
                            (case hc of
                               Some c \<Rightarrow> correctValues c (track_values t) 0
                                           (replicate (length (track_values t)) 0)
                             | None \<Rightarrow> track_values t)\<rparr>, [])))"
  by (simp add: retargetTrack_def splitTrackName_def newKeyframeTrack_def Let_def
        split: option.splits sum.splits)

lemma correctValues_length:
  "length (correctValues c vs i out) = length out"
proof (induction c vs i out rule: correctValues.induct)
  case (1 c vs i out)
  show ?case
  proof (cases "i < length vs")
    case True
    then show ?thesis
      using "1.IH" [OF True refl refl] by (subst correctValues.simps) (simp add: Let_def)
  next
    case False
    then show ?thesis by (subst correctValues.simps) simp
  qed
qed

lemma correctValues_below:
  "j < i \<Longrightarrow> correctValues c vs i out ! j = out ! j"
proof (induction c vs i out rule: correctValues.induct)
  case (1 c vs i out)
  show ?case
  proof (cases "i < length vs")
    case True
    have "j < i + 4" using "1.prems" by simp
    then show ?thesis
      using "1.IH" [OF True refl refl] "1.prems"
      by (subst correctValues.simps) (simp add: Let_def True)
  next
    case False
    then show ?thesis by (subst correctValues.simps) simp
  qed
qed

lemma correctValues_sample:
  assumes "i \<le> 4 * k" and "4 dvd i" and "4 * k + 3 < length vs" and "length out = length vs"
  shows "sampleAt (correctValues c vs i out) k = multiplyQuaternions (sampleAt vs k) c"
  using assms
proof (induction c vs i out rule: correctValues.induct)
  case (1 c vs i out)
  have lt: "i < length vs" using "1.prems" by simp
  let ?q = "multiply (newQuaternion (readValue vs i) (readValue vs (i + 1))
                 (readValue vs (i + 2)) (readValue vs (i + 3))) c"
  let ?out = "out[i := qx ?q, i + 1 := qy ?q, i + 2 := qz ?q, i + 3 := qw ?q]"
  have unfold: "correctValues c vs i out = correctValues c vs (i + 4) ?out"
    by (subst correctValues.simps) (simp add: Let_def lt)
  show ?case
  proof (cases "i = 4 * k")
    case True
    have q: "?q = multiplyQuaternions (sampleAt vs k) c"
      using "1.prems"(3) by (simp add: True multiply_def newQuaternion_def readValue_def sampleAt_def)
    have len: "4 * k + 3 < length out" using "1.prems" by simp
    have "sampleAt (correctValues c vs i out) k = sampleAt (correctValues c vs (i + 4) ?out) k"
      by (simp only: unfold)
    also have "\<dots> = sampleAt ?out k"
      by (simp add: sampleAt_def correctValues_below True)
    also have "\<dots> = ?q"
      using len by (simp add: sampleAt_def True)
    also have "\<dots> = multiplyQuaternions (sampleAt vs k) c"
      by (rule q)
    finally show ?thesis .
  next
    case False
    from "1.prems"(2) obtain j where j: "i = 4 * j" by (auto simp: dvd_def)
    with False "1.prems"(1) have "j < k" by simp
    then have le: "i + 4 \<le> 4 * k" using j by simp
    have dv: "4 dvd i + 4" using "1.prems"(2) by simp
    have len: "length ?out = length vs" using "1.prems"(4) by simp
    show ?thesis
      using "1.IH" [OF lt refl refl le dv "1.prems"(3) len] by (simp add: unfold)
  qed
qed

lemma retargetIteration_eq:
  "retargetIteration m t (acc, lg) =
     (acc @ (case fst (retargetTrack m t) of Some newTrack \<Rightarrow> [newTrack] | None \<Rightarrow> []),
      lg @ snd (retargetTrack m t))"
  by (cases "retargetTrack m t") (simp add: retargetIteration_def split: option.splits)

lemma retarget_fold:
  "fold (retargetIteration m) ts (acc, lg)
   = (acc @ List.map_filter (\<lambda>track. fst (retargetTrack m track)) ts,
      lg @ concat (map (\<lambda>track. snd (retargetTrack m track)) ts))"
proof (induction ts arbitrary: acc lg)
  case Nil
  then show ?case by (simp add: List.map_filter_simps)
next
  case (Cons t ts)
  show ?case
    by (simp add: retargetIteration_eq Cons.IH List.map_filter_simps split: option.splits)
qed

lemma retargetAnimationClip_eq:
  "retargetAnimationClip clip m animationName =
     (newAnimationClip (if clip_name clip = [] then animationName else clip_name clip)
        (clip_duration clip)
        (List.map_filter (\<lambda>track. fst (retargetTrack m track)) (clip_tracks clip)),
      concat (map (\<lambda>track. snd (retargetTrack m track)) (clip_tracks clip)) @
      (if List.map_filter (\<lambda>track. fst (retargetTrack m track)) (clip_tracks clip) = []
       then [NoTracksCreated animationName] else []))"
  by (simp add: retargetAnimationClip_def retarget_fold)

lemma retargetAnimationClip_tracks:
  "clip_tracks (fst (retargetAnimationClip clip m animationName)) =
     List.map_filter (\<lambda>track. fst (retargetTrack m track)) (clip_tracks clip)"
  by (simp add: retargetAnimationClip_eq newAnimationClip_def)

lemma retargetTrack_pushed:
  assumes "fst (retargetTrack m t) = Some t'"
  shows "\<exists>boneName property hc.
           splitTrackName (track_name t) = Some (boneName, property) \<and>
           getProperty m boneName \<noteq> Undefined \<and> getProperty m boneName \<noteq> Own [] \<and>
           property \<noteq> ''position'' \<and> property \<noteq> ''scale'' \<and> track_times t \<noteq> [] \<and>
           snd (retargetTrack m t) = [] \<and>
           needsHandCorrection (toStringValue (getProperty m boneName)) property = Inr hc \<and>
           t' = \<lparr>track_class =
                    (case hc of Some c \<Rightarrow> QuaternionKeyframeTrack | None \<Rightarrow> track_class t),
                  track_name = toStringValue (getProperty m boneName) @ ''.'' @ property,
                  track_times = track_times t,
                  track_values =
                    (case hc of
                       Some c \<Rightarrow> correctValues c (track_values t) 0
                                   (replicate (length (track_values t)) 0)
                     | None \<Rightarrow> track_values t)\<rparr>"
  using assms unfolding retargetTrack_eq
  by (auto split: option.splits if_splits sum.splits)

lemma handBoneCorrections_nonidentity:
  assumes "handBoneCorrections mapped = Some c" and "\<not> equals c identityQuaternion"
  shows "(mapped = ''LeftHand'' \<or> mapped = ''RightHand'') \<and> c = Quaternion 1 0 0 0"
  using assms
  by (auto simp: handBoneCorrections_def createHandCorrectionQuaternions_value Let_def
        equals_def identityQuaternion_def split: if_splits)

text \<open>
  Claim C1. The tracks of the retargeted clip are the tracks that the loop body pushes, in
  the order of the input. A pushed track has the times of its input track, unchanged, and
  as many values. When the input track is a \<^verbatim>\<open>quaternion\<close> track whose mapped bone has a
  correction in the table that is not the identity, that bone is \<^verbatim>\<open>LeftHand\<close> or
  \<^verbatim>\<open>RightHand\<close>, the correction \<open>c\<close> is the rotation by \<open>pi\<close> about the X axis, and every
  sample \<open>q\<close> of the input is \<open>q * c\<close> in the output (the correction on the right).
\<close>

theorem retargetAnimationClip_preserves_samples:
  "clip_tracks (fst (retargetAnimationClip clip boneNameMap animationName)) =
     List.map_filter (\<lambda>track. fst (retargetTrack boneNameMap track)) (clip_tracks clip) \<and>
   (\<forall>track newTrack. fst (retargetTrack boneNameMap track) = Some newTrack \<longrightarrow>
      track_times newTrack = track_times track \<and>
      length (track_values newTrack) = length (track_values track) \<and>
      (\<forall>boneName mapped c.
         splitTrackName (track_name track) = Some (boneName, ''quaternion'') \<and>
         boneNameMap boneName = Some mapped \<and>
         handBoneCorrections mapped = Some c \<and> \<not> equals c identityQuaternion \<longrightarrow>
           (mapped = ''LeftHand'' \<or> mapped = ''RightHand'') \<and>
           c = setFromAxisAngle (Vector3 1 0 0) pi \<and>
           (\<forall>k. 4 * k + 3 < length (track_values track) \<longrightarrow>
              sampleAt (track_values newTrack) k =
                multiplyQuaternions (sampleAt (track_values track) k) c)))"
proof (intro conjI allI impI)
  show "clip_tracks (fst (retargetAnimationClip clip boneNameMap animationName)) =
     List.map_filter (\<lambda>track. fst (retargetTrack boneNameMap track)) (clip_tracks clip)"
    by (rule retargetAnimationClip_tracks)
next
  fix track newTrack
  assume "fst (retargetTrack boneNameMap track) = Some newTrack"
  from retargetTrack_pushed [OF this]
  show "track_times newTrack = track_times track"
    and "length (track_values newTrack) = length (track_values track)"
    by (auto simp: correctValues_length split: option.splits)
next
  fix track newTrack boneName mapped c
  assume pushed: "fst (retargetTrack boneNameMap track) = Some newTrack"
    and h: "splitTrackName (track_name track) = Some (boneName, ''quaternion'') \<and>
         boneNameMap boneName = Some mapped \<and>
         handBoneCorrections mapped = Some c \<and> \<not> equals c identityQuaternion"
  from h have hand: "(mapped = ''LeftHand'' \<or> mapped = ''RightHand'') \<and> c = Quaternion 1 0 0 0"
    using handBoneCorrections_nonidentity by blast
  then show "mapped = ''LeftHand'' \<or> mapped = ''RightHand''" by simp
  show "c = setFromAxisAngle (Vector3 1 0 0) pi"
    using hand by (simp add: setFromAxisAngle_def Let_def)
  fix k
  assume k: "4 * k + 3 < length (track_values track)"
  have own: "getProperty boneNameMap boneName = Own mapped"
    using h by (simp add: getProperty_def)
  have need: "needsHandCorrection mapped ''quaternion'' = Inr (Some c)"
    using hand by (auto simp: needsHandCorrection_eq objectPrototypeKeys_def)
  from retargetTrack_pushed [OF pushed] h own need
  have "track_values newTrack =
          correctValues c (track_values track) 0 (replicate (length (track_values track)) 0)"
    by (auto simp: toStringValue_def)
  then show "sampleAt (track_values newTrack) k =
                multiplyQuaternions (sampleAt (track_values track) k) c"
    using correctValues_sample [of 0 k "track_values track"
        "replicate (length (track_values track)) 0" c] k
    by simp
qed

text \<open>
  Claim C1 on a left-hand track with two samples; on the first sample \<open>q * c\<close> and
  \<open>c * q\<close> differ, and the output is \<open>q * c\<close>.
\<close>

theorem retargetAnimationClip_preserves_samples_witness:
  "fst (retargetTrack [''mixamorigLeftHand'' \<mapsto> ''LeftHand'']
      \<lparr>track_class = QuaternionKeyframeTrack, track_name = ''mixamorigLeftHand.quaternion'',
        track_times = [0, 1], track_values = [0, 1, 0, 0, 0, 0, 0, 1]\<rparr>)
     = Some \<lparr>track_class = QuaternionKeyframeTrack, track_name = ''LeftHand.quaternion'',
             track_times = [0, 1], track_values = [0, 0, - 1, 0, 1, 0, 0, 0]\<rparr> \<and>
   splitTrackName ''mixamorigLeftHand.quaternion'' = Some (''mixamorigLeftHand'', ''quaternion'') \<and>
   handBoneCorrections ''LeftHand'' = Some (Quaternion 1 0 0 0) \<and>
   \<not> equals (Quaternion 1 0 0 0) identityQuaternion \<and>
   sampleAt [0, 0, - 1, 0, 1, 0, 0, 0] 0
     = multiplyQuaternions (sampleAt [0, 1, 0, 0, 0, 0, 0, 1] 0) (Quaternion 1 0 0 0) \<and>
   sampleAt [0, 0, - 1, 0, 1, 0, 0, 0] 0
     \<noteq> multiplyQuaternions (Quaternion 1 0 0 0) (sampleAt [0, 1, 0, 0, 0, 0, 0, 1] 0)"
proof -
  let ?m = "[''mixamorigLeftHand'' \<mapsto> ''LeftHand'']"
  let ?t = "\<lparr>track_class = QuaternionKeyframeTrack, track_name = ''mixamorigLeftHand.quaternion'',
        track_times = [0, 1], track_values = [0, 1, 0, 0, 0, 0, 0, 1::real]\<rparr>"
  let ?t' = "\<lparr>track_class = QuaternionKeyframeTrack, track_name = ''LeftHand.quaternion'',
             track_times = [0, 1], track_values = [0, 0, - 1, 0, 1, 0, 0, 0::real]\<rparr>"
  have split: "splitTrackName ''mixamorigLeftHand.quaternion''
      = Some (''mixamorigLeftHand'', ''quaternion'')"
    using splitTrackName_join [of "''quaternion''" "''mixamorigLeftHand''"] by simp
  have hand: "handBoneCorrections ''LeftHand'' = Some (Quaternion 1 0 0 0)"
    by (simp add: handBoneCorrections_def createHandCorrectionQuaternions_value Let_def)
  have nonid: "\<not> equals (Quaternion 1 0 0 0) identityQuaternion"
    by (simp add: equals_def identityQuaternion_def)
  have vals: "correctValues (Quaternion 1 0 0 0) [0, 1, 0, 0, 0, 0, 0, 1] 0
        [0, 0, 0, 0, 0, 0, 0, 0]
      = [0, 0, - 1, 0, 1, 0, 0, 0]"
    by code_simp
  have pushed: "fst (retargetTrack ?m ?t) = Some ?t'"
    by (simp add: retargetTrack_eq split getProperty_def toStringValue_def
          needsHandCorrection_eq objectPrototypeKeys_def vals)
  note inst = retargetAnimationClip_preserves_samples
    [of "\<lparr>clip_name = ''walk'', clip_duration = 1, clip_tracks = [?t]\<rparr>" ?m "''walking''"]
  from inst pushed split hand nonid
  have "sampleAt (track_values ?t') 0
      = multiplyQuaternions (sampleAt (track_values ?t) 0) (Quaternion 1 0 0 0)"
    by (elim conjE allE [of _ ?t] allE [of _ ?t'] allE [of _ "''mixamorigLeftHand''"]
          allE [of _ "''LeftHand''"] allE [of _ "Quaternion 1 0 0 0"] allE [of _ "0::nat"]) simp
  then have post: "sampleAt [0, 0, - 1, 0, 1, 0, 0, 0] 0
     = multiplyQuaternions (sampleAt [0, 1, 0, 0, 0, 0, 0, 1] 0) (Quaternion 1 0 0 0)"
    by simp
  have pre: "sampleAt [0, 0, - 1, 0, 1, 0, 0, 0] 0
     \<noteq> multiplyQuaternions (Quaternion 1 0 0 0) (sampleAt [0, 1, 0, 0, 0, 0, 0, 1] 0)"
    by (simp add: sampleAt_def multiplyQuaternions_def)
  from pushed split hand nonid post pre show ?thesis by blast
qed

lemma set_map_filter: "set (List.map_filter f xs) = {y. \<exists>x \<in> set xs. f x = Some y}"
  by (induction xs) (auto simp: List.map_filter_simps split: option.splits)

lemma map_filter_filter:
  "(\<And>x. x \<in> set xs \<Longrightarrow> \<not> P x \<Longrightarrow> f x = None) \<Longrightarrow>
     List.map_filter f (filter P xs) = List.map_filter f xs"
  by (induction xs) (auto simp: List.map_filter_simps split: option.splits)

lemma concat_map_filter:
  "(\<And>x. x \<in> set xs \<Longrightarrow> \<not> P x \<Longrightarrow> g x = []) \<Longrightarrow>
     concat (map g (filter P xs)) = concat (map g xs)"
  by (induction xs) auto

lemma map_filter_append:
  "List.map_filter f (xs @ ys) = List.map_filter f xs @ List.map_filter f ys"
  by (simp add: List.map_filter_def)

lemma retargetTrack_pushed_name:
  assumes "fst (retargetTrack m t) = Some t'"
  shows "\<exists>boneName property.
           splitTrackName (track_name t) = Some (boneName, property) \<and>
           getProperty m boneName \<noteq> Undefined \<and>
           splitTrackName (track_name t')
             = Some (toStringValue (getProperty m boneName), property) \<and>
           track_times t' \<noteq> [] \<and>
           property \<noteq> ''position'' \<and> property \<noteq> ''scale''"
proof -
  from retargetTrack_pushed [OF assms] obtain boneName property where
    s: "splitTrackName (track_name t) = Some (boneName, property)"
    and m: "getProperty m boneName \<noteq> Undefined"
    and p: "property \<noteq> ''position''" "property \<noteq> ''scale''"
    and n: "track_name t' = toStringValue (getProperty m boneName) @ ''.'' @ property"
    and ts: "track_times t' \<noteq> []"
    by auto
  from splitTrackName_Some [OF s] have "CHR ''.'' \<notin> set property" by simp
  then have "splitTrackName (track_name t')
      = Some (toStringValue (getProperty m boneName), property)"
    unfolding n by (rule splitTrackName_join)
  with s m p ts show ?thesis by blast
qed

lemma retargetTrack_position_scale:
  assumes "trackProperty t = Some ''position'' \<or> trackProperty t = Some ''scale''"
  shows "retargetTrack m t = (None, [])"
  using assms unfolding retargetTrack_eq trackProperty_def
  by (auto split: option.splits)

text \<open>
  Claim C2. Every track of the retargeted clip has a property, and it is neither
  \<^verbatim>\<open>position\<close> nor \<^verbatim>\<open>scale\<close>. An input track whose property is \<^verbatim>\<open>position\<close> or
  \<^verbatim>\<open>scale\<close> pushes nothing and reports nothing, whatever the map holds, so the result of
  retargeting (clip and log) is the one of the clip without those tracks.
\<close>

theorem retargetAnimationClip_drops_position_scale:
  "(\<forall>newTrack \<in> set (clip_tracks (fst (retargetAnimationClip clip boneNameMap animationName))).
      \<exists>property. trackProperty newTrack = Some property \<and>
        property \<noteq> ''position'' \<and> property \<noteq> ''scale'') \<and>
   (\<forall>track. trackProperty track = Some ''position'' \<or> trackProperty track = Some ''scale'' \<longrightarrow>
      retargetTrack boneNameMap track = (None, [])) \<and>
   retargetAnimationClip clip boneNameMap animationName =
     retargetAnimationClip
       (clip\<lparr>clip_tracks :=
          filter (\<lambda>track. \<not> (trackProperty track = Some ''position'' \<or>
                              trackProperty track = Some ''scale''))
            (clip_tracks clip)\<rparr>)
       boneNameMap animationName"
proof (intro conjI ballI allI impI)
  fix newTrack
  assume "newTrack \<in> set (clip_tracks (fst (retargetAnimationClip clip boneNameMap animationName)))"
  then obtain track where "fst (retargetTrack boneNameMap track) = Some newTrack"
    by (auto simp: retargetAnimationClip_tracks set_map_filter)
  from retargetTrack_pushed_name [OF this]
  show "\<exists>property. trackProperty newTrack = Some property \<and>
        property \<noteq> ''position'' \<and> property \<noteq> ''scale''"
    by (auto simp: trackProperty_def)
next
  fix track :: keyframe_track
  assume "trackProperty track = Some ''position'' \<or> trackProperty track = Some ''scale''"
  then show "retargetTrack boneNameMap track = (None, [])"
    by (rule retargetTrack_position_scale)
next
  let ?P = "\<lambda>track. \<not> (trackProperty track = Some ''position'' \<or>
                              trackProperty track = Some ''scale'')"
  have t: "List.map_filter (\<lambda>track. fst (retargetTrack boneNameMap track))
             (filter ?P (clip_tracks clip))
           = List.map_filter (\<lambda>track. fst (retargetTrack boneNameMap track)) (clip_tracks clip)"
    by (rule map_filter_filter) (simp add: retargetTrack_position_scale)
  have d: "concat (map (\<lambda>track. snd (retargetTrack boneNameMap track))
             (filter ?P (clip_tracks clip)))
           = concat (map (\<lambda>track. snd (retargetTrack boneNameMap track)) (clip_tracks clip))"
    by (rule concat_map_filter) (simp add: retargetTrack_position_scale)
  let ?clip = "clip\<lparr>clip_tracks := filter ?P (clip_tracks clip)\<rparr>"
  have sel: "clip_name ?clip = clip_name clip" "clip_duration ?clip = clip_duration clip"
    "clip_tracks ?clip = filter ?P (clip_tracks clip)"
    by simp_all
  show "retargetAnimationClip clip boneNameMap animationName =
     retargetAnimationClip ?clip boneNameMap animationName"
    by (simp only: retargetAnimationClip_eq sel t d)
qed

text \<open>Claim C2 on a clip with a position track and a quaternion track of the same bone.\<close>

theorem retargetAnimationClip_drops_position_scale_witness:
  "trackProperty \<lparr>track_class = VectorKeyframeTrack, track_name = ''mixamorigHips.position'',
      track_times = [0], track_values = [1, 2, 3]\<rparr> = Some ''position'' \<and>
   retargetTrack [''mixamorigHips'' \<mapsto> ''Hips'']
     \<lparr>track_class = VectorKeyframeTrack, track_name = ''mixamorigHips.position'',
       track_times = [0], track_values = [1, 2, 3]\<rparr> = (None, []) \<and>
   \<lparr>track_class = QuaternionKeyframeTrack, track_name = ''Hips.quaternion'',
     track_times = [0], track_values = [0, 0, 0, 1]\<rparr>
     \<in> set (clip_tracks (fst (retargetAnimationClip
         \<lparr>clip_name = ''walk'', clip_duration = 1,
           clip_tracks =
             [\<lparr>track_class = VectorKeyframeTrack, track_name = ''mixamorigHips.position'',
                track_times = [0], track_values = [1, 2, 3]\<rparr>,
              \<lparr>track_class = QuaternionKeyframeTrack, track_name = ''mixamorigHips.quaternion'',
                track_times = [0], track_values = [0, 0, 0, 1]\<rparr>]\<rparr>
         [''mixamorigHips'' \<mapsto> ''Hips''] ''walking''))) \<and>
   (\<exists>property.
      trackProperty \<lparr>track_class = QuaternionKeyframeTrack, track_name = ''Hips.quaternion'',
        track_times = [0], track_values = [0, 0, 0, 1]\<rparr> = Some property \<and>
      property \<noteq> ''position'' \<and> property \<noteq> ''scale'')"
proof -
  let ?m = "[''mixamorigHips'' \<mapsto> ''Hips'']"
  let ?p = "\<lparr>track_class = VectorKeyframeTrack, track_name = ''mixamorigHips.position'',
      track_times = [0], track_values = [1, 2, 3::real]\<rparr>"
  let ?q = "\<lparr>track_class = QuaternionKeyframeTrack, track_name = ''mixamorigHips.quaternion'',
      track_times = [0], track_values = [0, 0, 0, 1::real]\<rparr>"
  let ?q' = "\<lparr>track_class = QuaternionKeyframeTrack, track_name = ''Hips.quaternion'',
      track_times = [0], track_values = [0, 0, 0, 1::real]\<rparr>"
  let ?clip = "\<lparr>clip_name = ''walk'', clip_duration = 1, clip_tracks = [?p, ?q]\<rparr>"
  note inst = retargetAnimationClip_drops_position_scale [of ?clip ?m "''walking''"]
  have s1: "splitTrackName ''mixamorigHips.position'' = Some (''mixamorigHips'', ''position'')"
    using splitTrackName_join [of "''position''" "''mixamorigHips''"] by simp
  have s2: "splitTrackName ''mixamorigHips.quaternion'' = Some (''mixamorigHips'', ''quaternion'')"
    using splitTrackName_join [of "''quaternion''" "''mixamorigHips''"] by simp
  have pos: "trackProperty ?p = Some ''position''"
    by (simp add: trackProperty_def s1)
  from inst pos have dropped: "retargetTrack ?m ?p = (None, [])" by blast
  have mem: "?q' \<in> set (clip_tracks (fst (retargetAnimationClip ?clip ?m ''walking'')))"
    by (simp add: retargetAnimationClip_tracks retargetTrack_eq s1 s2 getProperty_def
          toStringValue_def needsHandCorrection_eq objectPrototypeKeys_def List.map_filter_simps)
  with inst have out: "\<exists>property. trackProperty ?q' = Some property \<and>
      property \<noteq> ''position'' \<and> property \<noteq> ''scale''"
    by blast
  from pos dropped mem out show ?thesis by blast
qed

lemma setProperty_lookup:
  "setProperty obj key v s =
     (if s = key \<and> (key \<noteq> ''__proto__'' \<or> obj key \<noteq> None) then Some v else obj s)"
  by (auto simp: setProperty_def)

lemma mapBoneNames_lookup:
  "mapBoneNames T names m0 s =
     (if s \<in> set names \<and> removeMixamorigPrefix s \<in> T \<and> (s \<noteq> ''__proto__'' \<or> m0 s \<noteq> None)
      then Some (removeMixamorigPrefix s)
      else m0 s)"
proof (induction names arbitrary: m0)
  case Nil
  show ?case by (simp add: mapBoneNames_def)
next
  case (Cons n names)
  let ?m1 = "if removeMixamorigPrefix n \<in> T then setProperty m0 n (removeMixamorigPrefix n) else m0"
  have step: "mapBoneNames T (n # names) m0 = mapBoneNames T names ?m1"
    by (simp add: mapBoneNames_def Let_def)
  have m1: "?m1 s =
      (if s = n \<and> removeMixamorigPrefix n \<in> T \<and> (n \<noteq> ''__proto__'' \<or> m0 n \<noteq> None)
       then Some (removeMixamorigPrefix n) else m0 s)"
    by (simp only: setProperty_lookup if_distrib [of "\<lambda>f. f s"] split: if_splits) blast
  have ih: "mapBoneNames T names ?m1 s =
     (if s \<in> set names \<and> removeMixamorigPrefix s \<in> T \<and> (s \<noteq> ''__proto__'' \<or> ?m1 s \<noteq> None)
      then Some (removeMixamorigPrefix s)
      else ?m1 s)"
    by (rule Cons.IH)
  show ?case
  proof (cases "s = n")
    case True
    show ?thesis
      unfolding step ih m1 using True by (cases "m0 n") auto
  next
    case False
    show ?thesis
      unfolding step ih m1 using False by simp
  qed
qed

lemma buildBoneNameMap_lookup:
  "buildBoneNameMap src tgt c s =
     (if s \<noteq> ''__proto__'' \<and> s \<in> set (sourceBoneNames src c) \<and>
         removeMixamorigPrefix s \<in> bone_name ` set (bones tgt)
      then Some (removeMixamorigPrefix s) else None)"
proof -
  have "buildBoneNameMap src tgt c s =
      mapBoneNames (bone_name ` set (bones tgt)) (sourceBoneNames src c) Map.empty s"
    by (simp add: buildBoneNameMap_def)
  also have "\<dots> = (if s \<in> set (sourceBoneNames src c) \<and>
         removeMixamorigPrefix s \<in> bone_name ` set (bones tgt) \<and> s \<noteq> ''__proto__''
      then Some (removeMixamorigPrefix s) else None)"
    by (simp only: mapBoneNames_lookup) simp
  also have "\<dots> = (if s \<noteq> ''__proto__'' \<and> s \<in> set (sourceBoneNames src c) \<and>
         removeMixamorigPrefix s \<in> bone_name ` set (bones tgt)
      then Some (removeMixamorigPrefix s) else None)"
    by (rule if_cong) blast+
  finally show ?thesis .
qed

lemma buildBoneNameMap_ran:
  "ran (buildBoneNameMap src tgt c) \<subseteq> bone_name ` set (bones tgt)"
  by (auto simp: ran_def buildBoneNameMap_lookup split: if_splits)

lemma retargetTrack_names_target:
  assumes "fst (retargetTrack (buildBoneNameMap src tgt c) track) = Some newTrack"
    and "trackBoneName track = Some boneName"
    and "boneName \<notin> set objectPrototypeKeys"
  shows "\<exists>mapped. trackBoneName newTrack = Some mapped \<and> mapped \<in> bone_name ` set (bones tgt)"
proof -
  let ?m = "buildBoneNameMap src tgt c"
  from retargetTrack_pushed_name [OF assms(1)] obtain b property where
    s: "splitTrackName (track_name track) = Some (b, property)"
    and g: "getProperty ?m b \<noteq> Undefined"
    and n: "splitTrackName (track_name newTrack) = Some (toStringValue (getProperty ?m b), property)"
    by blast
  from s assms(2) have b: "b = boneName" by (simp add: trackBoneName_def)
  from g assms(3) obtain mapped where m: "?m boneName = Some mapped"
    unfolding b by (auto simp: getProperty_def split: option.splits)
  then have "mapped \<in> ran ?m" by (auto simp: ran_def)
  then have "mapped \<in> bone_name ` set (bones tgt)" using buildBoneNameMap_ran by blast
  moreover have "trackBoneName newTrack = Some mapped"
    using n m by (simp add: trackBoneName_def b getProperty_def toStringValue_def)
  ultimately show ?thesis by blast
qed

text \<open>
  Claim C3 at two inputs where the code does not do what the claim says. A source bone
  named \<^verbatim>\<open>__proto__\<close> whose candidate is a target bone is not recorded in the map, because
  the write goes to the setter of \<^verbatim>\<open>Object.prototype\<close>. And with the map built for a target
  skeleton that has the one bone \<^verbatim>\<open>Hips\<close>, a track of the bone \<^verbatim>\<open>constructor\<close> is not
  dropped: the read of the map returns the inherited function, and the track that comes
  out is named after that function, which is no bone of the target skeleton.
\<close>

theorem buildBoneNameMap_inherited_keys:
  "removeMixamorigPrefix ''__proto__'' = ''__proto__'' \<and>
   ''__proto__'' \<in> set (sourceBoneNames
      (Some \<lparr>bones = [\<lparr>bone_name = ''__proto__'', bone_quaternion = Quaternion 0 0 0 1\<rparr>]\<rparr>)
      None) \<and>
   ''__proto__'' \<in> bone_name ` set (bones
      \<lparr>bones = [\<lparr>bone_name = ''__proto__'', bone_quaternion = Quaternion 0 0 0 1\<rparr>]\<rparr>) \<and>
   buildBoneNameMap
      (Some \<lparr>bones = [\<lparr>bone_name = ''__proto__'', bone_quaternion = Quaternion 0 0 0 1\<rparr>]\<rparr>)
      \<lparr>bones = [\<lparr>bone_name = ''__proto__'', bone_quaternion = Quaternion 0 0 0 1\<rparr>]\<rparr> None
      ''__proto__'' = None \<and>
   clip_tracks (fst (retargetAnimationClip
     \<lparr>clip_name = ''walk'', clip_duration = 1,
       clip_tracks =
         [\<lparr>track_class = QuaternionKeyframeTrack, track_name = ''constructor.quaternion'',
            track_times = [0], track_values = [0, 0, 0, 1]\<rparr>]\<rparr>
     (buildBoneNameMap None
        \<lparr>bones = [\<lparr>bone_name = ''Hips'', bone_quaternion = Quaternion 0 0 0 1\<rparr>]\<rparr> None)
     ''walking''))
   = [\<lparr>track_class = QuaternionKeyframeTrack,
       track_name = ''function Object() { [native code] }.quaternion'',
       track_times = [0], track_values = [0, 0, 0, 1]\<rparr>] \<and>
   trackBoneName
     \<lparr>track_class = QuaternionKeyframeTrack,
       track_name = ''function Object() { [native code] }.quaternion'',
       track_times = [0], track_values = [0, 0, 0, 1]\<rparr>
   = Some ''function Object() { [native code] }'' \<and>
   ''function Object() { [native code] }'' \<notin> bone_name ` set (bones
      \<lparr>bones = [\<lparr>bone_name = ''Hips'', bone_quaternion = Quaternion 0 0 0 1\<rparr>]\<rparr>)"
proof -
  have r: "removeMixamorigPrefix ''__proto__'' = ''__proto__''"
    by (simp add: removeMixamorigPrefix_def hasMixamorigPrefix_def)
  have s1: "splitTrackName ''constructor.quaternion'' = Some (''constructor'', ''quaternion'')"
    using splitTrackName_join [of "''quaternion''" "''constructor''"] by simp
  have s2: "splitTrackName ''function Object() { [native code] }.quaternion''
      = Some (''function Object() { [native code] }'', ''quaternion'')"
    using splitTrackName_join [of "''quaternion''" "''function Object() { [native code] }''"]
    by simp
  have g: "getProperty (buildBoneNameMap None
        \<lparr>bones = [\<lparr>bone_name = ''Hips'', bone_quaternion = Quaternion 0 0 0 1\<rparr>]\<rparr> None)
        ''constructor'' = Inherited ''constructor''"
    by (simp add: getProperty_def buildBoneNameMap_lookup sourceBoneNames_def
          objectPrototypeKeys_def)
  have str: "toStringValue (Inherited ''constructor'') = ''function Object() { [native code] }''"
    by (simp add: toStringValue_def inheritedToString_def)
  have hc: "needsHandCorrection ''function Object() { [native code] }'' ''quaternion'' = Inr None"
    by (simp add: needsHandCorrection_eq objectPrototypeKeys_def)
  show ?thesis
    by (simp add: r sourceBoneNames_def buildBoneNameMap_lookup retargetAnimationClip_tracks
          retargetTrack_eq s1 s2 g str hc trackBoneName_def List.map_filter_simps)
qed

lemma resetDuration_fold_Max:
  assumes "\<And>t. t \<in> set ts \<Longrightarrow> track_times t \<noteq> []"
  shows "fold (\<lambda>track duration.
             if track_times track = [] then duration
             else max duration (last (track_times track))) ts d
         = Max (insert d ((\<lambda>t. last (track_times t)) ` set ts))"
  using assms
proof (induction ts arbitrary: d)
  case Nil
  then show ?case by simp
next
  case (Cons t ts)
  have ne: "track_times t \<noteq> []" using Cons.prems by simp
  have "fold (\<lambda>track duration.
             if track_times track = [] then duration
             else max duration (last (track_times track))) ts (max d (last (track_times t)))
        = Max (insert (max d (last (track_times t))) ((\<lambda>t. last (track_times t)) ` set ts))"
    using Cons.prems by (intro Cons.IH) simp
  also have "\<dots> = Max (insert d ((\<lambda>t. last (track_times t)) ` set (t # ts)))"
  proof -
    let ?S = "(\<lambda>t. last (track_times t)) ` set ts"
    have fin: "finite ?S" by simp
    have "Max (insert (max d (last (track_times t))) ?S)
        = Max (insert d (insert (last (track_times t)) ?S))"
    proof (cases "?S = {}")
      case True
      then show ?thesis by (simp add: max.commute)
    next
      case False
      then show ?thesis using fin by (simp add: max.assoc)
    qed
    then show ?thesis by simp
  qed
  finally show ?case using ne by simp
qed

lemma resetDuration_Max:
  assumes "\<And>t. t \<in> set ts \<Longrightarrow> track_times t \<noteq> []"
  shows "resetDuration ts = Max (insert 0 ((\<lambda>t. last (track_times t)) ` set ts))"
  unfolding resetDuration_def using assms by (rule resetDuration_fold_Max)

lemma retarget_pushed_times:
  assumes "t' \<in> set (List.map_filter (\<lambda>track. fst (retargetTrack m track)) ts)"
  shows "track_times t' \<noteq> []"
proof -
  from assms obtain t where "fst (retargetTrack m t) = Some t'"
    by (auto simp: set_map_filter)
  from retargetTrack_pushed_name [OF this] show ?thesis by blast
qed

text \<open>
  Claim C7, as the code has it. \<^const>\<open>retargetAnimationClip\<close> returns a clip for every
  input: its name is the name of the input clip, or \<open>animationName\<close> when that name is
  empty; its tracks are what the iterations push, each input track handled on its own; its
  duration is the input's when that is not negative, and otherwise the largest of 0 and the
  last times of its tracks, which is 0 when no track survives. A track name without \<^verbatim>\<open>.\<close>
  pushes nothing and reports \<^const>\<open>InvalidTrackName\<close>; a track whose bone is not in the map
  pushes nothing when the bone name is none of the property names a plain object inherits;
  a track without times, which the constructor refuses, pushes nothing; a track that pushes
  nothing does not change the tracks that the others produce; and when
  no track pushes anything the clip has no tracks, the same name, and
  \<^const>\<open>NoTracksCreated\<close> is reported.
\<close>

theorem retargetAnimationClip_total:
  "retargetAnimationClip clip boneNameMap animationName =
     (\<lparr>clip_name = (if clip_name clip = [] then animationName else clip_name clip),
       clip_duration =
         (if clip_duration clip < 0
          then Max (insert 0 ((\<lambda>track. last (track_times track)) `
                 set (List.map_filter (\<lambda>track. fst (retargetTrack boneNameMap track))
                        (clip_tracks clip))))
          else clip_duration clip),
       clip_tracks =
         List.map_filter (\<lambda>track. fst (retargetTrack boneNameMap track)) (clip_tracks clip)\<rparr>,
      concat (map (\<lambda>track. snd (retargetTrack boneNameMap track)) (clip_tracks clip)) @
      (if List.map_filter (\<lambda>track. fst (retargetTrack boneNameMap track)) (clip_tracks clip) = []
       then [NoTracksCreated animationName] else [])) \<and>
   (\<not> clip_duration clip < 0 \<longrightarrow>
      clip_duration (fst (retargetAnimationClip clip boneNameMap animationName))
        = clip_duration clip) \<and>
   (\<forall>track. CHR ''.'' \<notin> set (track_name track) \<longrightarrow>
      retargetTrack boneNameMap track = (None, [InvalidTrackName (track_name track)])) \<and>
   (\<forall>track boneName.
      trackBoneName track = Some boneName \<and> boneNameMap boneName = None \<and>
      boneName \<notin> set objectPrototypeKeys \<longrightarrow>
      retargetTrack boneNameMap track = (None, [])) \<and>
   (\<forall>track. track_times track = [] \<longrightarrow> fst (retargetTrack boneNameMap track) = None) \<and>
   (\<forall>before bad after.
      clip_tracks clip = before @ bad # after \<and> fst (retargetTrack boneNameMap bad) = None \<longrightarrow>
      clip_tracks (fst (retargetAnimationClip clip boneNameMap animationName)) =
        clip_tracks (fst (retargetAnimationClip (clip\<lparr>clip_tracks := before @ after\<rparr>)
          boneNameMap animationName))) \<and>
   ((\<forall>track \<in> set (clip_tracks clip). fst (retargetTrack boneNameMap track) = None) \<longrightarrow>
      fst (retargetAnimationClip clip boneNameMap animationName) =
        \<lparr>clip_name = (if clip_name clip = [] then animationName else clip_name clip),
         clip_duration = (if clip_duration clip < 0 then 0 else clip_duration clip),
         clip_tracks = []\<rparr> \<and>
      NoTracksCreated animationName
        \<in> set (snd (retargetAnimationClip clip boneNameMap animationName)))"
proof (intro conjI allI impI)
  let ?new = "List.map_filter (\<lambda>track. fst (retargetTrack boneNameMap track)) (clip_tracks clip)"
  have reset: "resetDuration ?new = Max (insert 0 ((\<lambda>track. last (track_times track)) ` set ?new))"
    by (rule resetDuration_Max) (rule retarget_pushed_times)
  show "retargetAnimationClip clip boneNameMap animationName =
     (\<lparr>clip_name = (if clip_name clip = [] then animationName else clip_name clip),
       clip_duration =
         (if clip_duration clip < 0
          then Max (insert 0 ((\<lambda>track. last (track_times track)) ` set ?new))
          else clip_duration clip),
       clip_tracks = ?new\<rparr>,
      concat (map (\<lambda>track. snd (retargetTrack boneNameMap track)) (clip_tracks clip)) @
      (if ?new = [] then [NoTracksCreated animationName] else []))"
    by (simp only: retargetAnimationClip_eq newAnimationClip_def reset)
next
  assume "\<not> clip_duration clip < 0"
  then show "clip_duration (fst (retargetAnimationClip clip boneNameMap animationName))
        = clip_duration clip"
    by (simp add: retargetAnimationClip_eq newAnimationClip_def)
next
  fix track :: keyframe_track
  assume "CHR ''.'' \<notin> set (track_name track)"
  then have "splitTrackName (track_name track) = None" by (simp add: splitTrackName_None)
  then show "retargetTrack boneNameMap track = (None, [InvalidTrackName (track_name track)])"
    by (simp add: retargetTrack_eq)
next
  fix track :: keyframe_track and boneName :: string
  assume "trackBoneName track = Some boneName \<and> boneNameMap boneName = None \<and>
      boneName \<notin> set objectPrototypeKeys"
  then show "retargetTrack boneNameMap track = (None, [])"
    by (auto simp: retargetTrack_eq trackBoneName_def getProperty_def split: option.splits)
next
  fix track :: keyframe_track
  assume empty: "track_times track = []"
  show "fst (retargetTrack boneNameMap track) = None"
  proof (cases "fst (retargetTrack boneNameMap track)")
    case None
    then show ?thesis .
  next
    case (Some newTrack)
    from retargetTrack_pushed [OF Some] have "track_times track \<noteq> []" by blast
    with empty show ?thesis by simp
  qed
next
  fix before after :: "keyframe_track list" and bad :: keyframe_track
  assume "clip_tracks clip = before @ bad # after \<and> fst (retargetTrack boneNameMap bad) = None"
  then show "clip_tracks (fst (retargetAnimationClip clip boneNameMap animationName)) =
        clip_tracks (fst (retargetAnimationClip (clip\<lparr>clip_tracks := before @ after\<rparr>)
          boneNameMap animationName))"
    by (simp add: retargetAnimationClip_tracks map_filter_append List.map_filter_simps)
next
  assume none: "\<forall>track \<in> set (clip_tracks clip). fst (retargetTrack boneNameMap track) = None"
  have "set (List.map_filter (\<lambda>track. fst (retargetTrack boneNameMap track)) (clip_tracks clip)) = {}"
    using none by (auto simp: set_map_filter)
  then have e: "List.map_filter (\<lambda>track. fst (retargetTrack boneNameMap track)) (clip_tracks clip) = []"
    by simp
  show "fst (retargetAnimationClip clip boneNameMap animationName) =
        \<lparr>clip_name = (if clip_name clip = [] then animationName else clip_name clip),
         clip_duration = (if clip_duration clip < 0 then 0 else clip_duration clip),
         clip_tracks = []\<rparr>"
    by (simp add: retargetAnimationClip_eq newAnimationClip_def resetDuration_def e)
  show "NoTracksCreated animationName
        \<in> set (snd (retargetAnimationClip clip boneNameMap animationName))"
    by (simp add: retargetAnimationClip_eq e)
qed

text \<open>Claim C7, as the code has it, on an unnamed clip where no track survives, and on a clip with one bad track.\<close>

theorem retargetAnimationClip_total_witness:
  "CHR ''.'' \<notin> set ''badname'' \<and>
   trackBoneName \<lparr>track_class = QuaternionKeyframeTrack, track_name = ''Tail.quaternion'',
      track_times = [0], track_values = [0, 0, 0, 1]\<rparr> = Some ''Tail'' \<and>
   [''mixamorigHips'' \<mapsto> ''Hips''] ''Tail'' = None \<and>
   ''Tail'' \<notin> set objectPrototypeKeys \<and>
   \<not> (2::real) < 0 \<and>
   fst (retargetTrack [''mixamorigHips'' \<mapsto> ''Hips'']
     \<lparr>track_class = QuaternionKeyframeTrack, track_name = ''mixamorigHips.quaternion'',
       track_times = [], track_values = []\<rparr>) = None \<and>
   retargetAnimationClip
     \<lparr>clip_name = [], clip_duration = 2,
       clip_tracks =
         [\<lparr>track_class = QuaternionKeyframeTrack, track_name = ''badname'',
            track_times = [0], track_values = [0, 0, 0, 1]\<rparr>,
          \<lparr>track_class = QuaternionKeyframeTrack, track_name = ''Tail.quaternion'',
            track_times = [0], track_values = [0, 0, 0, 1]\<rparr>]\<rparr>
     [''mixamorigHips'' \<mapsto> ''Hips''] ''walking''
   = (\<lparr>clip_name = ''walking'', clip_duration = 2, clip_tracks = []\<rparr>,
      [InvalidTrackName ''badname'', NoTracksCreated ''walking'']) \<and>
   clip_tracks (fst (retargetAnimationClip
     \<lparr>clip_name = ''walk'', clip_duration = 2,
       clip_tracks =
         [\<lparr>track_class = QuaternionKeyframeTrack, track_name = ''badname'',
            track_times = [0], track_values = [0, 0, 0, 1]\<rparr>,
          \<lparr>track_class = QuaternionKeyframeTrack, track_name = ''mixamorigHips.quaternion'',
            track_times = [0], track_values = [0, 0, 0, 1]\<rparr>]\<rparr>
     [''mixamorigHips'' \<mapsto> ''Hips''] ''walking''))
   = [\<lparr>track_class = QuaternionKeyframeTrack, track_name = ''Hips.quaternion'',
       track_times = [0], track_values = [0, 0, 0, 1]\<rparr>]"
proof -
  let ?m = "[''mixamorigHips'' \<mapsto> ''Hips'']"
  let ?bad = "\<lparr>track_class = QuaternionKeyframeTrack, track_name = ''badname'',
            track_times = [0], track_values = [0, 0, 0, 1::real]\<rparr>"
  let ?tail = "\<lparr>track_class = QuaternionKeyframeTrack, track_name = ''Tail.quaternion'',
            track_times = [0], track_values = [0, 0, 0, 1::real]\<rparr>"
  let ?hips = "\<lparr>track_class = QuaternionKeyframeTrack, track_name = ''mixamorigHips.quaternion'',
            track_times = [0], track_values = [0, 0, 0, 1::real]\<rparr>"
  let ?hips' = "\<lparr>track_class = QuaternionKeyframeTrack, track_name = ''Hips.quaternion'',
       track_times = [0], track_values = [0, 0, 0, 1::real]\<rparr>"
  let ?c1 = "\<lparr>clip_name = [], clip_duration = 2, clip_tracks = [?bad, ?tail]\<rparr>"
  let ?c2 = "\<lparr>clip_name = ''walk'', clip_duration = 2, clip_tracks = [?bad, ?hips]\<rparr>"
  note i1 = retargetAnimationClip_total [of ?c1 ?m "''walking''"]
  note i2 = retargetAnimationClip_total [of ?c2 ?m "''walking''"]
  have s1: "splitTrackName ''Tail.quaternion'' = Some (''Tail'', ''quaternion'')"
    using splitTrackName_join [of "''quaternion''" "''Tail''"] by simp
  have s2: "splitTrackName ''mixamorigHips.quaternion'' = Some (''mixamorigHips'', ''quaternion'')"
    using splitTrackName_join [of "''quaternion''" "''mixamorigHips''"] by simp
  have nodot: "CHR ''.'' \<notin> set (track_name ?bad)" by simp
  with i1 have bad: "retargetTrack ?m ?bad = (None, [InvalidTrackName (track_name ?bad)])"
    by blast
  have tb: "trackBoneName ?tail = Some ''Tail''" by (simp add: trackBoneName_def s1)
  have unmapped: "?m ''Tail'' = None" by simp
  have plain: "''Tail'' \<notin> set objectPrototypeKeys" by (simp add: objectPrototypeKeys_def)
  from i1 tb unmapped plain have tail: "retargetTrack ?m ?tail = (None, [])" by blast
  have "\<forall>track \<in> set (clip_tracks ?c1). fst (retargetTrack ?m track) = None"
    using bad tail by simp
  with i1 have empty: "fst (retargetAnimationClip ?c1 ?m ''walking'') =
      \<lparr>clip_name = ''walking'', clip_duration = 2, clip_tracks = []\<rparr>"
    by simp
  have "track_times \<lparr>track_class = QuaternionKeyframeTrack,
      track_name = ''mixamorigHips.quaternion'', track_times = [], track_values = []\<rparr> = []"
    by simp
  with i1 have refused: "fst (retargetTrack ?m
      \<lparr>track_class = QuaternionKeyframeTrack, track_name = ''mixamorigHips.quaternion'',
        track_times = [], track_values = []\<rparr>) = None"
    by blast
  have "\<not> clip_duration ?c1 < 0" by simp
  with i1 have kept: "clip_duration (fst (retargetAnimationClip ?c1 ?m ''walking''))
      = clip_duration ?c1"
    by blast
  have logged: "snd (retargetAnimationClip ?c1 ?m ''walking'') =
      [InvalidTrackName ''badname'', NoTracksCreated ''walking'']"
    by (simp add: retargetAnimationClip_eq bad tail List.map_filter_simps)
  have r1: "retargetAnimationClip ?c1 ?m ''walking'' =
      (\<lparr>clip_name = ''walking'', clip_duration = 2, clip_tracks = []\<rparr>,
       [InvalidTrackName ''badname'', NoTracksCreated ''walking''])"
    using empty logged by (simp add: prod_eq_iff)
  have "clip_tracks ?c2 = [] @ ?bad # [?hips] \<and> fst (retargetTrack ?m ?bad) = None"
    using bad by simp
  with i2 have "clip_tracks (fst (retargetAnimationClip ?c2 ?m ''walking'')) =
      clip_tracks (fst (retargetAnimationClip (?c2\<lparr>clip_tracks := [] @ [?hips]\<rparr>) ?m ''walking''))"
    by blast
  then have r2: "clip_tracks (fst (retargetAnimationClip ?c2 ?m ''walking'')) = [?hips']"
    by (simp add: retargetAnimationClip_tracks retargetTrack_eq s2 getProperty_def
          toStringValue_def needsHandCorrection_eq objectPrototypeKeys_def List.map_filter_simps)
  from nodot tb unmapped plain refused r1 r2 show ?thesis by simp
qed

text \<open>
  Claim C7, as the specification words it, fails at two inputs. A track of the bone
  \<^verbatim>\<open>constructor\<close>, which the empty map does not hold, is not dropped: the read of the map
  returns the inherited function and a track named after it comes out. And a clip whose
  duration is negative comes back with the duration the constructor computes from the
  surviving tracks, here 0, not with its own.
\<close>

theorem retargetAnimationClip_total_counterexample:
  "trackBoneName
     \<lparr>track_class = QuaternionKeyframeTrack, track_name = ''constructor.quaternion'',
       track_times = [0], track_values = [0, 0, 0, 1]\<rparr> = Some ''constructor'' \<and>
   Map.empty ''constructor'' = (None :: string option) \<and>
   retargetTrack Map.empty
     \<lparr>track_class = QuaternionKeyframeTrack, track_name = ''constructor.quaternion'',
       track_times = [0], track_values = [0, 0, 0, 1]\<rparr>
   = (Some \<lparr>track_class = QuaternionKeyframeTrack,
             track_name = ''function Object() { [native code] }.quaternion'',
             track_times = [0], track_values = [0, 0, 0, 1]\<rparr>, []) \<and>
   retargetAnimationClip
     \<lparr>clip_name = ''walk'', clip_duration = - 1,
       clip_tracks =
         [\<lparr>track_class = QuaternionKeyframeTrack, track_name = ''badname'',
            track_times = [0, 3], track_values = [0, 0, 0, 1, 0, 0, 0, 1]\<rparr>]\<rparr>
     Map.empty ''walking''
   = (\<lparr>clip_name = ''walk'', clip_duration = 0, clip_tracks = []\<rparr>,
      [InvalidTrackName ''badname'', NoTracksCreated ''walking'']) \<and>
   (0::real) \<noteq> - 1"
proof -
  have s1: "splitTrackName ''constructor.quaternion'' = Some (''constructor'', ''quaternion'')"
    using splitTrackName_join [of "''quaternion''" "''constructor''"] by simp
  have s2: "splitTrackName ''badname'' = None"
    by (simp add: splitTrackName_None)
  have g: "getProperty (Map.empty :: string \<rightharpoonup> string) ''constructor'' = Inherited ''constructor''"
    by (simp add: getProperty_def objectPrototypeKeys_def)
  have str: "toStringValue (Inherited ''constructor'') = ''function Object() { [native code] }''"
    by (simp add: toStringValue_def inheritedToString_def)
  have hc: "needsHandCorrection ''function Object() { [native code] }'' ''quaternion'' = Inr None"
    by (simp add: needsHandCorrection_eq objectPrototypeKeys_def)
  show ?thesis
    by (simp add: trackBoneName_def s1 s2 retargetTrack_eq g str hc retargetAnimationClip_eq
          newAnimationClip_def resetDuration_def List.map_filter_simps)
qed

text \<open>
  Claim C9. With the source bones \<^verbatim>\<open>mixamorigHips\<close> and \<^verbatim>\<open>mixamorig:Hips\<close> and the target
  bone \<^verbatim>\<open>Hips\<close>, \<^const>\<open>buildBoneNameMap\<close> maps both source names to \<^verbatim>\<open>Hips\<close>, and a clip
  with a quaternion track for each comes out of \<^const>\<open>retargetAnimationClip\<close> with two
  tracks named \<^verbatim>\<open>Hips.quaternion\<close>.
\<close>

theorem duplicate_track_names:
  "buildBoneNameMap
     (Some \<lparr>bones = [\<lparr>bone_name = ''mixamorigHips'', bone_quaternion = Quaternion 0 0 0 1\<rparr>,
                     \<lparr>bone_name = ''mixamorig:Hips'', bone_quaternion = Quaternion 0 0 0 1\<rparr>]\<rparr>)
     \<lparr>bones = [\<lparr>bone_name = ''Hips'', bone_quaternion = Quaternion 0 0 0 1\<rparr>]\<rparr> None
     ''mixamorigHips'' = Some ''Hips'' \<and>
   buildBoneNameMap
     (Some \<lparr>bones = [\<lparr>bone_name = ''mixamorigHips'', bone_quaternion = Quaternion 0 0 0 1\<rparr>,
                     \<lparr>bone_name = ''mixamorig:Hips'', bone_quaternion = Quaternion 0 0 0 1\<rparr>]\<rparr>)
     \<lparr>bones = [\<lparr>bone_name = ''Hips'', bone_quaternion = Quaternion 0 0 0 1\<rparr>]\<rparr> None
     ''mixamorig:Hips'' = Some ''Hips'' \<and>
   ''mixamorigHips'' \<noteq> ''mixamorig:Hips'' \<and>
   map track_name (clip_tracks (fst (retargetAnimationClip
     \<lparr>clip_name = ''walk'', clip_duration = 1,
       clip_tracks =
         [\<lparr>track_class = QuaternionKeyframeTrack, track_name = ''mixamorigHips.quaternion'',
            track_times = [0], track_values = [0, 0, 0, 1]\<rparr>,
          \<lparr>track_class = QuaternionKeyframeTrack, track_name = ''mixamorig:Hips.quaternion'',
            track_times = [0], track_values = [0, 1, 0, 0]\<rparr>]\<rparr>
     (buildBoneNameMap
        (Some \<lparr>bones = [\<lparr>bone_name = ''mixamorigHips'', bone_quaternion = Quaternion 0 0 0 1\<rparr>,
                        \<lparr>bone_name = ''mixamorig:Hips'', bone_quaternion = Quaternion 0 0 0 1\<rparr>]\<rparr>)
        \<lparr>bones = [\<lparr>bone_name = ''Hips'', bone_quaternion = Quaternion 0 0 0 1\<rparr>]\<rparr> None)
     ''walking'')))
   = [''Hips.quaternion'', ''Hips.quaternion'']"
proof -
  have s1: "splitTrackName ''mixamorigHips.quaternion'' = Some (''mixamorigHips'', ''quaternion'')"
    using splitTrackName_join [of "''quaternion''" "''mixamorigHips''"] by simp
  have s2: "splitTrackName ''mixamorig:Hips.quaternion'' = Some (''mixamorig:Hips'', ''quaternion'')"
    using splitTrackName_join [of "''quaternion''" "''mixamorig:Hips''"] by simp
  have r1: "removeMixamorigPrefix ''mixamorigHips'' = ''Hips''"
    using removeMixamorigPrefix_plain [of "''Hips''"] by simp
  have r2: "removeMixamorigPrefix ''mixamorig:Hips'' = ''Hips''"
    using removeMixamorigPrefix_colon [of "''Hips''"] by simp
  show ?thesis
    by (simp add: buildBoneNameMap_lookup sourceBoneNames_def r1 r2 retargetAnimationClip_tracks
          retargetTrack_eq s1 s2 getProperty_def toStringValue_def needsHandCorrection_eq
          objectPrototypeKeys_def List.map_filter_simps)
qed

end
